theory Spec2Isabelle
  imports Complex_Main "HOL-Library.Sublist" "HOL-Library.Multiset"
begin

section \<open>Values decoded from the remote API\<close>

text \<open>
  Both modules read the remote side through \<^verbatim>\<open>json.loads\<close>. A decoded body is a tree of
  Python values: \<^verbatim>\<open>None\<close>, \<^verbatim>\<open>bool\<close>, \<^verbatim>\<open>int\<close>, \<^verbatim>\<open>float\<close>, \<^verbatim>\<open>str\<close>, \<^verbatim>\<open>list\<close> and \<^verbatim>\<open>dict\<close> with string
  keys. A finite float is the rational number it denotes (the non-finite floats that
  \<^verbatim>\<open>json.loads\<close> accepts as an extension are not represented). A character stands for
  the code point of the same number, so strings range over code points below 256. A
  \<^verbatim>\<open>dict\<close> is the list of its items, in order; its keys are distinct.
\<close>

datatype json =
    JNull
  | JBool bool
  | JInt int
  | JFloat rat
  | JStr string
  | JArr "json list"
  | JObj "(string \<times> json) list"

text \<open>The exceptions the two modules can meet; all of them derive from \<^verbatim>\<open>Exception\<close>.\<close>

datatype exn =
    KeyError string
  | IndexError
  | TypeError
  | AttributeError
  | ValueError
  | StatusError int
  | JSONDecodeError
  | RequestException

subsection \<open>Python operations on decoded values\<close>

text \<open>Sequencing of computations that may raise.\<close>

definition bind_e :: "exn + 'a \<Rightarrow> ('a \<Rightarrow> exn + 'b) \<Rightarrow> exn + 'b" where
  "bind_e m f = (case m of Inl e \<Rightarrow> Inl e | Inr x \<Rightarrow> f x)"

text \<open>\<^verbatim>\<open>v[k]\<close> with a string key: only a \<^verbatim>\<open>dict\<close> answers; a missing key raises
  \<^verbatim>\<open>KeyError\<close>, a value of any other type raises \<^verbatim>\<open>TypeError\<close>.\<close>

fun py_getitem :: "json \<Rightarrow> string \<Rightarrow> exn + json" where
  "py_getitem (JObj kvs) k = (case map_of kvs k of None \<Rightarrow> Inl (KeyError k) | Some v \<Rightarrow> Inr v)"
| "py_getitem _ k = Inl TypeError"

text \<open>\<^verbatim>\<open>v[0]\<close>: the first element of a list, the first character of a string; a
  \<^verbatim>\<open>dict\<close> decoded from JSON has no integer key.\<close>

fun py_getitem0 :: "json \<Rightarrow> exn + json" where
  "py_getitem0 (JArr []) = Inl IndexError"
| "py_getitem0 (JArr (x # xs)) = Inr x"
| "py_getitem0 (JStr []) = Inl IndexError"
| "py_getitem0 (JStr (c # cs)) = Inr (JStr [c])"
| "py_getitem0 (JObj kvs) = Inl (KeyError ''0'')"
| "py_getitem0 _ = Inl TypeError"

text \<open>Iteration (\<^verbatim>\<open>for x in v\<close>): a list yields its elements, a \<^verbatim>\<open>dict\<close> its keys, a string
  its characters; the other values are not iterable.\<close>

fun py_iter :: "json \<Rightarrow> exn + json list" where
  "py_iter (JArr xs) = Inr xs"
| "py_iter (JObj kvs) = Inr (map (\<lambda>kv. JStr (fst kv)) kvs)"
| "py_iter (JStr s) = Inr (map (\<lambda>c. JStr [c]) s)"
| "py_iter _ = Inl TypeError"

text \<open>Truth value of a decoded value.\<close>

fun py_truthy :: "json \<Rightarrow> bool" where
  "py_truthy JNull = False"
| "py_truthy (JBool b) = b"
| "py_truthy (JInt i) = (i \<noteq> 0)"
| "py_truthy (JFloat r) = (r \<noteq> 0)"
| "py_truthy (JStr s) = (s \<noteq> [])"
| "py_truthy (JArr xs) = (xs \<noteq> [])"
| "py_truthy (JObj kvs) = (kvs \<noteq> [])"

text \<open>\<^verbatim>\<open>v == s\<close> for a string \<open>s\<close>: only the same string is equal.\<close>

definition py_eq_str :: "json \<Rightarrow> string \<Rightarrow> bool" where
  "py_eq_str v s = (v = JStr s)"

text \<open>\<^verbatim>\<open>v == n\<close> for an integer \<open>n\<close>: numbers compare by value, and \<^verbatim>\<open>bool\<close> is a
  subtype of \<^verbatim>\<open>int\<close>.\<close>

fun py_eq_int :: "json \<Rightarrow> int \<Rightarrow> bool" where
  "py_eq_int (JInt i) n = (i = n)"
| "py_eq_int (JBool b) n = ((if b then 1 else 0) = n)"
| "py_eq_int (JFloat r) n = (r = of_int n)"
| "py_eq_int _ n = False"

text \<open>\<^verbatim>\<open>v.startswith(p)\<close>: a method of \<^verbatim>\<open>str\<close> only.\<close>

fun py_startswith :: "json \<Rightarrow> string \<Rightarrow> exn + bool" where
  "py_startswith (JStr s) p = Inr (prefix p s)"
| "py_startswith _ p = Inl AttributeError"

text \<open>\<^verbatim>\<open>s in v\<close> for a string \<open>s\<close>: substring of a string, element of a list, key of a
  \<^verbatim>\<open>dict\<close>; the other values raise \<^verbatim>\<open>TypeError\<close>.\<close>

fun py_contains :: "json \<Rightarrow> string \<Rightarrow> exn + bool" where
  "py_contains (JStr t) s = Inr (sublist s t)"
| "py_contains (JArr xs) s = Inr (JStr s \<in> set xs)"
| "py_contains (JObj kvs) s = Inr (s \<in> fst ` set kvs)"
| "py_contains _ s = Inl TypeError"

text \<open>\<^verbatim>\<open>v in hosts\<close> for a list of strings: some element equals \<open>v\<close>.\<close>

definition py_in_strs :: "json \<Rightarrow> string list \<Rightarrow> bool" where
  "py_in_strs v hosts = (\<exists>h \<in> set hosts. py_eq_str v h)"

subsection \<open>Whitespace, \<^verbatim>\<open>str.split()\<close> and \<^verbatim>\<open>int()\<close>\<close>

text \<open>The code points below 256 that \<^verbatim>\<open>str.isspace\<close> accepts; \<^verbatim>\<open>str.split()\<close> splits at
  these.\<close>

definition py_isspace :: "char \<Rightarrow> bool" where
  "py_isspace c = ((of_char c :: nat) \<in> {9, 10, 11, 12, 13, 28, 29, 30, 31, 32, 133, 160})"

text \<open>\<^verbatim>\<open>s.split()\<close>: the maximal runs of non-whitespace characters, in order. The first
  argument holds the current run, reversed.\<close>

fun py_split_aux :: "string \<Rightarrow> string \<Rightarrow> string list" where
  "py_split_aux cur [] = (if cur = [] then [] else [rev cur])"
| "py_split_aux cur (c # cs) =
     (if py_isspace c
      then (if cur = [] then py_split_aux [] cs else rev cur # py_split_aux [] cs)
      else py_split_aux (c # cur) cs)"

definition py_split :: "string \<Rightarrow> string list" where
  "py_split s = py_split_aux [] s"

definition is_digit :: "char \<Rightarrow> bool" where
  "is_digit c = (48 \<le> (of_char c :: nat) \<and> (of_char c :: nat) \<le> 57)"

definition digit_val :: "char \<Rightarrow> int" where
  "digit_val c = int (of_char c) - 48"

text \<open>The digits of an integer literal: single underscores may stand between digits.
  The flag says that the previous character was a digit.\<close>

fun digits_ok :: "bool \<Rightarrow> string \<Rightarrow> bool" where
  "digits_ok prev [] = prev"
| "digits_ok prev (c # cs) =
     (if is_digit c then digits_ok True cs
      else if c = CHR ''_'' \<and> prev then digits_ok False cs
      else False)"

definition digits_value :: "string \<Rightarrow> int" where
  "digits_value s = foldl (\<lambda>acc c. 10 * acc + digit_val c) 0 (filter is_digit s)"

text \<open>The whitespace that \<^verbatim>\<open>int\<close> drops around a literal is narrower than that of
  \<^verbatim>\<open>str.isspace\<close>: \<^verbatim>\<open>int\<close> first turns the whitespace above code point 127 (133 and 160,
  below 256) into spaces and then skips the ASCII whitespace 9 to 13 and 32 only. The
  separators 28 to 31 stay in the literal and make it invalid.\<close>

definition int_isspace :: "char \<Rightarrow> bool" where
  "int_isspace c = ((of_char c :: nat) \<in> {9, 10, 11, 12, 13, 32, 133, 160})"

definition py_strip :: "string \<Rightarrow> string" where
  "py_strip s = rev (dropWhile int_isspace (rev (dropWhile int_isspace s)))"

text \<open>\<^verbatim>\<open>int(s)\<close> for a string, base ten: the whitespace around the literal is dropped,
  one sign is allowed. (The interpreter's configurable limit on the number of digits is
  not modelled.)\<close>

definition int_of_str :: "string \<Rightarrow> exn + int" where
  "int_of_str s =
     (case py_strip s of
        [] \<Rightarrow> Inl ValueError
      | c # cs \<Rightarrow>
          if c = CHR ''-'' then (if digits_ok False cs then Inr (- digits_value cs) else Inl ValueError)
          else if c = CHR ''+'' then (if digits_ok False cs then Inr (digits_value cs) else Inl ValueError)
          else if digits_ok False (c # cs) then Inr (digits_value (c # cs))
          else Inl ValueError)"

text \<open>\<^verbatim>\<open>int(v)\<close>: a float is truncated towards zero.\<close>

fun py_int :: "json \<Rightarrow> exn + int" where
  "py_int (JInt i) = Inr i"
| "py_int (JBool b) = Inr (if b then 1 else 0)"
| "py_int (JFloat r) = Inr (if 0 \<le> r then \<lfloor>r\<rfloor> else \<lceil>r\<rceil>)"
| "py_int (JStr s) = int_of_str s"
| "py_int _ = Inl TypeError"

subsection \<open>Comprehensions and generators over computations that may raise\<close>

text \<open>\<^verbatim>\<open>[x for x in xs if p(x)]\<close>: every element is tested, the first raise ends the
  comprehension.\<close>

fun filter_e :: "('a \<Rightarrow> exn + bool) \<Rightarrow> 'a list \<Rightarrow> exn + 'a list" where
  "filter_e p [] = Inr []"
| "filter_e p (x # xs) =
     (case p x of
        Inl e \<Rightarrow> Inl e
      | Inr b \<Rightarrow> (case filter_e p xs of Inl e \<Rightarrow> Inl e | Inr ys \<Rightarrow> Inr (if b then x # ys else ys)))"

text \<open>\<^verbatim>\<open>[f(x) for x in xs]\<close>.\<close>

fun map_e :: "('a \<Rightarrow> exn + 'b) \<Rightarrow> 'a list \<Rightarrow> exn + 'b list" where
  "map_e f [] = Inr []"
| "map_e f (x # xs) =
     (case f x of
        Inl e \<Rightarrow> Inl e
      | Inr y \<Rightarrow> (case map_e f xs of Inl e \<Rightarrow> Inl e | Inr ys \<Rightarrow> Inr (y # ys)))"

text \<open>\<^verbatim>\<open>any(p(x) for x in xs)\<close>: stops at the first true element.\<close>

fun any_e :: "('a \<Rightarrow> exn + bool) \<Rightarrow> 'a list \<Rightarrow> exn + bool" where
  "any_e p [] = Inr False"
| "any_e p (x # xs) =
     (case p x of Inl e \<Rightarrow> Inl e | Inr b \<Rightarrow> if b then Inr True else any_e p xs)"

text \<open>\<^verbatim>\<open>all(p(x) for x in xs)\<close>: stops at the first false element.\<close>

fun all_e :: "('a \<Rightarrow> exn + bool) \<Rightarrow> 'a list \<Rightarrow> exn + bool" where
  "all_e p [] = Inr True"
| "all_e p (x # xs) =
     (case p x of Inl e \<Rightarrow> Inl e | Inr b \<Rightarrow> if b then all_e p xs else Inr False)"

text \<open>\<^verbatim>\<open>next((x for x in xs if p(x)), None)\<close>: the first element that passes, if any.\<close>

fun next_e :: "('a \<Rightarrow> exn + bool) \<Rightarrow> 'a list \<Rightarrow> exn + 'a option" where
  "next_e p [] = Inr None"
| "next_e p (x # xs) =
     (case p x of Inl e \<Rightarrow> Inl e | Inr b \<Rightarrow> if b then Inr (Some x) else next_e p xs)"

section \<open>Outcomes, aborts and the transport\<close>

text \<open>
  A module reports \<^verbatim>\<open>changed\<close>, \<^verbatim>\<open>failed\<close> and \<^verbatim>\<open>msg\<close>. The key \<^verbatim>\<open>changed\<close> is absent from the
  report when \<^verbatim>\<open>fail_json\<close> is called without it. A message is a fixed text, a decoded
  API response, or a fixed text followed by the text of a caught exception.
\<close>

datatype message = Text string | Data json | Caught string exn

record outcome =
  changed :: "bool option"
  failed :: bool
  msg :: message

text \<open>
  Two things end a computation early: an exception (which \<^verbatim>\<open>except Exception\<close> catches),
  and \<^verbatim>\<open>module.fail_json\<close>, which reports and leaves the process through
  \<^verbatim>\<open>SystemExit\<close> (which \<^verbatim>\<open>except Exception\<close> does not catch).
\<close>

datatype abort = Raised exn | Exited outcome

text \<open>\<^verbatim>\<open>module.fail_json(msg=m, ...)\<close> sets \<^verbatim>\<open>failed\<close> and exits; \<open>ch\<close> is the \<^verbatim>\<open>changed\<close>
  argument, if given.\<close>

definition fail_json :: "message \<Rightarrow> bool option \<Rightarrow> abort + 'a" where
  "fail_json m ch = Inl (Exited \<lparr>changed = ch, failed = True, msg = m\<rparr>)"

definition raised :: "exn + 'a \<Rightarrow> abort + 'a" where
  "raised m = (case m of Inl e \<Rightarrow> Inl (Raised e) | Inr x \<Rightarrow> Inr x)"

text \<open>
  An HTTP response: its status code and its text as \<^verbatim>\<open>json.loads\<close> reads it (\<open>None\<close>
  when the text is not JSON). The remote side answers each call with a response, or
  with none when the HTTP library raises. Every call of one invocation is different
  from the others, so a function of the call describes any remote behaviour. A
  computation returns its result with the calls it has made, in order.
\<close>

record response =
  status_code :: int
  body :: "json option"

definition bind_io ::
  "('e + 'a) \<times> 'c list \<Rightarrow> ('a \<Rightarrow> ('e + 'b) \<times> 'c list) \<Rightarrow> ('e + 'b) \<times> 'c list" where
  "bind_io m f =
     (case m of
        (Inl e, cs) \<Rightarrow> (Inl e, cs)
      | (Inr x, cs) \<Rightarrow> (case f x of (r, cs') \<Rightarrow> (r, cs @ cs')))"

definition raised_io :: "(exn + 'a) \<times> 'c list \<Rightarrow> (abort + 'a) \<times> 'c list" where
  "raised_io m = (raised (fst m), snd m)"

text \<open>A step that makes no call.\<close>

definition pure_io :: "'e + 'a \<Rightarrow> ('e + 'a) \<times> 'c list" where
  "pure_io r = (r, [])"

datatype state = Present | Absent

section \<open>The patch-configuration module\<close>

text \<open>
  The calls of \<^verbatim>\<open>endpoint_central_patch_config.py\<close>: a GET of an object collection (API
  1.4) and a POST of a payload to an endpoint (API 1.3). Base URL, port and headers are
  the same for every call of an invocation and are left out. The parameters \<^verbatim>\<open>hosts\<close> and
  \<^verbatim>\<open>patch_types\<close> are lists of strings, as the functions annotate them. The module does not
  support check mode, so \<^verbatim>\<open>module.check_mode\<close> is false and the early exit of \<^verbatim>\<open>run_module\<close>
  is never taken. The function a caller passes as \<^verbatim>\<open>fail_json\<close> is \<^verbatim>\<open>module.fail_json\<close>.
\<close>

datatype ec_call = EC_GET string | EC_POST string json

type_synonym ec_remote = "ec_call \<Rightarrow> response option"

definition get_api_objects_ec :: "ec_remote \<Rightarrow> string \<Rightarrow> (exn + json) \<times> ec_call list" where
  "get_api_objects_ec remote object_name =
     (case remote (EC_GET object_name) of
        None \<Rightarrow> Inl RequestException
      | Some r \<Rightarrow>
          if status_code r = 200
          then (case body r of
                  None \<Rightarrow> Inl JSONDecodeError
                | Some j \<Rightarrow> bind_e (py_getitem j ''message_response'') (\<lambda>m. py_getitem m object_name))
          else Inl (StatusError (status_code r)),
      [EC_GET object_name])"

definition api_post :: "ec_remote \<Rightarrow> string \<Rightarrow> json \<Rightarrow> (exn + json) \<times> ec_call list" where
  "api_post remote endpoint data =
     (case remote (EC_POST endpoint data) of
        None \<Rightarrow> Inl RequestException
      | Some r \<Rightarrow>
          if status_code r = 200
          then (case body r of None \<Rightarrow> Inl JSONDecodeError | Some j \<Rightarrow> Inr j)
          else Inl (StatusError (status_code r)),
      [EC_POST endpoint data])"

text \<open>The two comprehensions of \<^verbatim>\<open>get_resource_ids_for_patching\<close>, on the fetched
  inventory.\<close>

definition selected_hosts :: "json \<Rightarrow> string list \<Rightarrow> exn + json list" where
  "selected_hosts all_systems hosts =
     bind_e (py_iter all_systems)
       (filter_e (\<lambda>x. bind_e (py_getitem x ''resource_name'') (\<lambda>n. Inr (py_in_strs n hosts))))"

definition resource_ids :: "json \<Rightarrow> string list \<Rightarrow> exn + int list" where
  "resource_ids all_systems hosts =
     bind_e (selected_hosts all_systems hosts)
       (map_e (\<lambda>x. bind_e (py_getitem x ''resource_id'') py_int))"

definition get_resource_ids_for_patching_ec ::
  "ec_remote \<Rightarrow> string list \<Rightarrow> (exn + int list) \<times> ec_call list" where
  "get_resource_ids_for_patching_ec remote hosts =
     bind_io (get_api_objects_ec remote ''allsystems'')
       (\<lambda>all_systems. pure_io (resource_ids all_systems hosts))"

text \<open>\<^verbatim>\<open>v.split()\<close> on a decoded value: a method of \<^verbatim>\<open>str\<close> only.\<close>

fun py_split_json :: "json \<Rightarrow> exn + string list" where
  "py_split_json (JStr s) = Inr (py_split s)"
| "py_split_json _ = Inl AttributeError"

text \<open>The condition of the comprehension that selects patches in \<^verbatim>\<open>patch_hosts\<close>: the
  \<^verbatim>\<open>any\<close> over the requested labels, and only if it holds the test of \<^verbatim>\<open>missing\<close>.\<close>

definition patch_selected :: "string list \<Rightarrow> json \<Rightarrow> exn + bool" where
  "patch_selected patch_types x =
     bind_e
       (any_e (\<lambda>utype.
          bind_e (py_getitem x ''patch_description'')
            (\<lambda>d. bind_e (py_split_json d)
              (\<lambda>toks. Inr (set (py_split utype) \<subseteq> set toks))))
          patch_types)
       (\<lambda>b. if b
             then bind_e (py_getitem x ''missing'') (\<lambda>m. bind_e (py_int m) (\<lambda>n. Inr (0 < n)))
             else Inr False)"

definition selected_patches :: "json \<Rightarrow> string list \<Rightarrow> exn + json list" where
  "selected_patches all_patches patch_types =
     bind_e (py_iter all_patches) (filter_e (patch_selected patch_types))"

text \<open>The \<^verbatim>\<open>try\<close> block of \<^verbatim>\<open>patch_hosts\<close> on the fetched policies: \<^verbatim>\<open>next\<close> raises
  \<^verbatim>\<open>StopIteration\<close> when no policy has the name, and the handler calls \<^verbatim>\<open>fail_json\<close>.\<close>

definition policy_id :: "json \<Rightarrow> string \<Rightarrow> abort + json" where
  "policy_id policies policy_name =
     (case bind_e (py_iter policies)
             (next_e (\<lambda>x. bind_e (py_getitem x ''template_name'')
                             (\<lambda>n. Inr (py_eq_str n policy_name)))) of
        Inl e \<Rightarrow> Inl (Raised e)
      | Inr None \<Rightarrow> fail_json (Text ''failed to find deployment policy'') (Some False)
      | Inr (Some x) \<Rightarrow> raised (py_getitem x ''template_id''))"

definition install_data ::
  "json list \<Rightarrow> int list \<Rightarrow> string \<Rightarrow> string \<Rightarrow> json \<Rightarrow> json" where
  "install_data patch_ids rids config_name config_desc pid =
     JObj [(''PatchIDs'', JArr patch_ids),
           (''ResourceIDs'', JArr (map JInt rids)),
           (''ConfigName'', JStr config_name),
           (''ConfigDescription'', JStr config_desc),
           (''actionToPerform'', JStr ''Deploy''),
           (''DeploymentPolicyTemplateID'', pid)]"

definition patch_hosts ::
  "ec_remote \<Rightarrow> string \<Rightarrow> string \<Rightarrow> string \<Rightarrow> string list \<Rightarrow> string list
     \<Rightarrow> (abort + json) \<times> ec_call list" where
  "patch_hosts remote config_name config_desc policy_name hosts patch_types =
     bind_io (raised_io (get_resource_ids_for_patching_ec remote hosts)) (\<lambda>rids.
     bind_io (raised_io (get_api_objects_ec remote ''allpatches'')) (\<lambda>all_patches.
     bind_io (pure_io (raised (selected_patches all_patches patch_types))) (\<lambda>sel.
     bind_io (pure_io (raised (map_e (\<lambda>x. py_getitem x ''patch_id'') sel))) (\<lambda>patch_ids.
     bind_io (raised_io (get_api_objects_ec remote ''deploymentpolicies'')) (\<lambda>policies.
     bind_io (pure_io (policy_id policies policy_name)) (\<lambda>pid.
       raised_io (api_post remote ''patch/installpatch''
         (install_data patch_ids rids config_name config_desc pid))))))))"

text \<open>The body of the generator in \<^verbatim>\<open>check_if_config_exists\<close>: a chain of \<^verbatim>\<open>and\<close>, read
  left to right, that stops at the first false conjunct.\<close>

definition config_matches :: "string \<Rightarrow> string list \<Rightarrow> json \<Rightarrow> exn + bool" where
  "config_matches config_name hosts config =
     bind_e (py_getitem config ''collection_name'') (\<lambda>n.
     bind_e (py_startswith n config_name) (\<lambda>b1.
       if \<not> b1 then Inr False
       else bind_e (py_getitem config ''is_collection_deleted'') (\<lambda>d.
         if py_truthy d then Inr False
         else bind_e (py_getitem config ''total_target_count'') (\<lambda>c.
           if \<not> py_eq_int c (int (length hosts)) then Inr False
           else bind_e (py_getitem config ''status_label'') (\<lambda>l.
             Inr (\<not> py_eq_str l ''dc.db.config.status.executed''))))))"

definition check_if_config_exists :: "string \<Rightarrow> json \<Rightarrow> string list \<Rightarrow> abort + bool" where
  "check_if_config_exists config_name configs hosts =
     (case bind_e (py_iter configs) (any_e (config_matches config_name hosts)) of
        Inl e \<Rightarrow> fail_json (Caught ''Failed to check existing configs '' e) (Some False)
      | Inr exists \<Rightarrow> Inr exists)"

text \<open>The classification of the create response, the same lines in both modules: the
  message is the response; \<^verbatim>\<open>status\<close> and \<^verbatim>\<open>error_code\<close> are read from it.\<close>

definition classify_create :: "json \<Rightarrow> abort + outcome" where
  "classify_create resp =
     (case py_getitem resp ''status'' of
        Inl e \<Rightarrow> Inl (Raised e)
      | Inr st \<Rightarrow>
          if py_eq_str st ''error''
          then (case py_getitem resp ''error_code'' of
                  Inl e \<Rightarrow> Inl (Raised e)
                | Inr code \<Rightarrow>
                    if py_eq_str code ''3010''
                    then Inr \<lparr>changed = Some False, failed = False, msg = Data resp\<rparr>
                    else fail_json (Data resp) (Some False))
          else Inr \<lparr>changed = Some True, failed = False, msg = Data resp\<rparr>)"

text \<open>What the process reports: the result handed to \<^verbatim>\<open>exit_json\<close>, the report of a
  \<^verbatim>\<open>fail_json\<close> inside, or the report of the outer \<^verbatim>\<open>except Exception\<close> handler with its
  text \<open>handler_text\<close>.\<close>

definition finish :: "string \<Rightarrow> (abort + outcome) \<times> 'c list \<Rightarrow> outcome \<times> 'c list" where
  "finish handler_text m =
     (case fst m of
        Inr result \<Rightarrow> result
      | Inl (Exited r) \<Rightarrow> r
      | Inl (Raised e) \<Rightarrow> \<lparr>changed = Some False, failed = True, msg = Caught handler_text e\<rparr>,
      snd m)"

definition initial_result :: outcome where
  "initial_result = \<lparr>changed = Some False, failed = False, msg = Text []\<rparr>"

definition run_module_ec ::
  "ec_remote \<Rightarrow> string \<Rightarrow> string \<Rightarrow> string \<Rightarrow> string list \<Rightarrow> string list \<Rightarrow> state
     \<Rightarrow> outcome \<times> ec_call list" where
  "run_module_ec remote name desc deployment_policy_name hosts patch_types st =
     finish ''failed to patch hosts: ''
       (bind_io (raised_io (get_api_objects_ec remote ''viewconfig'')) (\<lambda>configs.
        bind_io (pure_io (check_if_config_exists name configs hosts)) (\<lambda>config_exists.
          if st = Present then
            if config_exists
            then pure_io (Inr \<lparr>changed = Some False, failed = False,
                               msg = Text ''config already exists''\<rparr>)
            else bind_io (patch_hosts remote name desc deployment_policy_name hosts patch_types)
                   (\<lambda>resp. pure_io (classify_create resp))
          else pure_io (Inr initial_result))))"

section \<open>The service-desk ticket module\<close>

text \<open>
  The calls of \<^verbatim>\<open>service_desk_plus_request.py\<close>: a GET of an object collection, the
  user search by name, the POST that creates a request and the DELETE that moves a
  request to the trash. The body of the POST is determined by the subject, the patch
  types, the hosts and the policy name (which the description is formatted from) and
  by the requester's id; the call records these five.
\<close>

datatype sdp_call =
    SDP_GET string
  | SDP_GET_users string
  | SDP_POST_request string "string list option" "string list" "string option" int
  | SDP_DELETE json

type_synonym sdp_remote = "sdp_call \<Rightarrow> response option"

text \<open>The calls that change the remote side.\<close>

fun ec_mutating :: "ec_call \<Rightarrow> bool" where
  "ec_mutating (EC_POST e d) = True"
| "ec_mutating (EC_GET n) = False"

fun sdp_mutating :: "sdp_call \<Rightarrow> bool" where
  "sdp_mutating (SDP_POST_request s p h d i) = True"
| "sdp_mutating (SDP_DELETE i) = True"
| "sdp_mutating _ = False"

text \<open>The test \<^verbatim>\<open>response.status_code in [200, 201]\<close> and the decoding that follows it.\<close>

definition decoded_sdp :: "response option \<Rightarrow> exn + json" where
  "decoded_sdp reply =
     (case reply of
        None \<Rightarrow> Inl RequestException
      | Some r \<Rightarrow>
          if status_code r = 200 \<or> status_code r = 201
          then (case body r of None \<Rightarrow> Inl JSONDecodeError | Some j \<Rightarrow> Inr j)
          else Inl (StatusError (status_code r)))"

definition get_api_objects_sdp :: "sdp_remote \<Rightarrow> string \<Rightarrow> (exn + json) \<times> sdp_call list" where
  "get_api_objects_sdp remote object_name =
     (bind_e (decoded_sdp (remote (SDP_GET object_name))) (\<lambda>j. py_getitem j object_name),
      [SDP_GET object_name])"


text \<open>Every exception inside \<^verbatim>\<open>get_user_by_username\<close> ends in \<^verbatim>\<open>fail_json\<close>, called with a
  message only.\<close>

definition get_user_by_username :: "sdp_remote \<Rightarrow> string \<Rightarrow> (abort + json) \<times> sdp_call list" where
  "get_user_by_username remote username =
     (case bind_e (decoded_sdp (remote (SDP_GET_users username)))
             (\<lambda>response_obj. bind_e (py_getitem response_obj ''users'') py_getitem0) of
        Inl e \<Rightarrow> fail_json (Caught ''Error getting user by username: '' e) None
      | Inr user \<Rightarrow> Inr user,
      [SDP_GET_users username])"

definition delete_tms_ticket :: "sdp_remote \<Rightarrow> json \<Rightarrow> (exn + json) \<times> sdp_call list" where
  "delete_tms_ticket remote request_id =
     (decoded_sdp (remote (SDP_DELETE request_id)), [SDP_DELETE request_id])"

definition create_tms_request ::
  "sdp_remote \<Rightarrow> string \<Rightarrow> string option \<Rightarrow> string list \<Rightarrow> string list option
     \<Rightarrow> (abort + json) \<times> sdp_call list" where
  "create_tms_request remote request_name policy_name hosts patch_types =
     bind_io (get_user_by_username remote ''sv-automation'') (\<lambda>user.
     bind_io (pure_io (raised (bind_e (py_getitem user ''id'') py_int))) (\<lambda>uid.
       (raised (bind_e (decoded_sdp
                  (remote (SDP_POST_request request_name patch_types hosts policy_name uid)))
                  (\<lambda>j. py_getitem j ''request'')),
        [SDP_POST_request request_name patch_types hosts policy_name uid])))"

text \<open>The condition of the generator in \<^verbatim>\<open>find_request\<close>: four conjuncts, read left to
  right. The last one iterates over \<^verbatim>\<open>patch_types\<close>, which is \<^verbatim>\<open>None\<close> when the parameter
  is omitted.\<close>

definition description_has :: "json \<Rightarrow> string list \<Rightarrow> exn + bool" where
  "description_has request strs =
     all_e (\<lambda>s. bind_e (py_getitem request ''short_description'') (\<lambda>d. py_contains d s)) strs"

definition request_matches ::
  "string \<Rightarrow> string list \<Rightarrow> string list option \<Rightarrow> json \<Rightarrow> exn + bool" where
  "request_matches request_name hosts patch_types request =
     bind_e (py_getitem request ''subject'') (\<lambda>s.
     bind_e (py_startswith s request_name) (\<lambda>b1.
       if \<not> b1 then Inr False
       else bind_e (py_getitem request ''status'') (\<lambda>status.
            bind_e (py_getitem status ''name'') (\<lambda>n.
              if \<not> py_eq_str n ''Open'' then Inr False
              else bind_e (description_has request hosts) (\<lambda>b3.
                if \<not> b3 then Inr False
                else (case patch_types of
                        None \<Rightarrow> Inl TypeError
                      | Some pts \<Rightarrow> description_has request pts))))))"

definition find_request ::
  "string \<Rightarrow> json \<Rightarrow> string list \<Rightarrow> string list option \<Rightarrow> abort + json option" where
  "find_request request_name requests hosts patch_types =
     (case bind_e (py_iter requests) (next_e (request_matches request_name hosts patch_types)) of
        Inl e \<Rightarrow> fail_json (Caught ''Failed to find existing request '' e) (Some False)
      | Inr request \<Rightarrow> Inr request)"

text \<open>The classification of the delete response.\<close>

definition classify_delete :: "json \<Rightarrow> abort + outcome" where
  "classify_delete resp =
     (case bind_e (py_getitem resp ''response_status'') (\<lambda>rs. py_getitem rs ''status'') of
        Inl e \<Rightarrow> Inl (Raised e)
      | Inr s \<Rightarrow>
          if py_eq_str s ''success''
          then Inr \<lparr>changed = Some True, failed = False, msg = Data resp\<rparr>
          else fail_json (Data resp) (Some False))"

text \<open>The truth value of what \<^verbatim>\<open>find_request\<close> returned (\<^verbatim>\<open>if request\<close>).\<close>

definition found :: "json option \<Rightarrow> bool" where
  "found request = (case request of None \<Rightarrow> False | Some r \<Rightarrow> py_truthy r)"

definition run_module_sdp ::
  "sdp_remote \<Rightarrow> string \<Rightarrow> string option \<Rightarrow> string list \<Rightarrow> string list option \<Rightarrow> state
     \<Rightarrow> outcome \<times> sdp_call list" where
  "run_module_sdp remote name deployment_policy_name hosts patch_types st =
     finish ''failed to create request: ''
       (bind_io (raised_io (get_api_objects_sdp remote ''requests'')) (\<lambda>requests.
        bind_io (pure_io (find_request name requests hosts patch_types)) (\<lambda>request.
          case st of
            Present \<Rightarrow>
              if found request
              then pure_io (Inr \<lparr>changed = Some False, failed = False,
                                 msg = Text ''request already exists''\<rparr>)
              else bind_io (create_tms_request remote name deployment_policy_name hosts patch_types)
                     (\<lambda>resp. pure_io (classify_create resp))
          | Absent \<Rightarrow>
              if \<not> found request
              then pure_io (Inr \<lparr>changed = Some False, failed = False,
                                 msg = Text ''request does not exist''\<rparr>)
              else (case request of
                      None \<Rightarrow> pure_io (Inl (Raised TypeError))
                    | Some r \<Rightarrow>
                        bind_io (pure_io (raised (py_getitem r ''id''))) (\<lambda>request_id.
                        bind_io (raised_io (delete_tms_ticket remote request_id))
                          (\<lambda>resp. pure_io (classify_delete resp)))))))"

section \<open>Vocabulary of the properties\<close>

text \<open>A computation returns when it does not raise.\<close>

definition returns :: "'e + 'a \<Rightarrow> bool" where
  "returns m = (case m of Inl e \<Rightarrow> False | Inr x \<Rightarrow> True)"

subsection \<open>Inventory entries\<close>

text \<open>\<open>named_in hosts\<close> says that the \<^verbatim>\<open>resource_name\<close> of an inventory entry is one of
  \<open>hosts\<close>. An inventory entry that \<^verbatim>\<open>get_resource_ids_for_patching\<close> can read has a
  \<^verbatim>\<open>resource_name\<close> and, when it is named in \<open>hosts\<close>, a \<^verbatim>\<open>resource_id\<close> that \<^verbatim>\<open>int\<close> accepts
  (the id of an entry that is not selected is never read). \<open>entry_id\<close> is that integer,
  and \<open>ids_of\<close> lists the ids of the entries named in \<open>hosts\<close>, in the order of the
  inventory.\<close>

definition named_in :: "string list \<Rightarrow> json \<Rightarrow> bool" where
  "named_in hosts x = (\<exists>h \<in> set hosts. py_getitem x ''resource_name'' = Inr (JStr h))"

definition system_entry :: "string list \<Rightarrow> json \<Rightarrow> bool" where
  "system_entry hosts x =
     (returns (py_getitem x ''resource_name'')
      \<and> (named_in hosts x \<longrightarrow> returns (bind_e (py_getitem x ''resource_id'') py_int)))"



subsection \<open>Transport doubles\<close>

text \<open>A remote side that serves the given collections in the envelope of API 1.4 and
  answers a POST by \<open>post\<close>; and an inventory entry with a name and an id.\<close>

definition ec_double :: "(string \<times> json) list \<Rightarrow> (json \<Rightarrow> response option) \<Rightarrow> ec_remote" where
  "ec_double collections post c =
     (case c of
        EC_GET n \<Rightarrow>
          (case map_of collections n of
             None \<Rightarrow> None
           | Some objs \<Rightarrow>
               Some \<lparr>status_code = 200,
                     body = Some (JObj [(''message_response'', JObj [(n, objs)])])\<rparr>)
      | EC_POST e d \<Rightarrow> post d)"

definition system :: "string \<Rightarrow> int \<Rightarrow> json" where
  "system n i = JObj [(''resource_name'', JStr n), (''resource_id'', JInt i)]"

subsection \<open>Remote objects and the matchers in the specification's words\<close>

text \<open>Reading a field of a remote object for the statement of a property: the value
  (\<open>JNull\<close> when the read raises), the string (empty when it is not one) and the integer
  that \<^verbatim>\<open>int\<close> makes of it (0 when \<^verbatim>\<open>int\<close> raises). \<open>is_str\<close> says that a read gave a string.\<close>

definition field :: "json \<Rightarrow> string \<Rightarrow> json" where
  "field c k = (case py_getitem c k of Inr v \<Rightarrow> v | Inl e \<Rightarrow> JNull)"

definition is_str :: "exn + json \<Rightarrow> bool" where
  "is_str m = (case m of Inr (JStr s) \<Rightarrow> True | _ \<Rightarrow> False)"

definition str_field :: "json \<Rightarrow> string \<Rightarrow> string" where
  "str_field c k = (case py_getitem c k of Inr (JStr s) \<Rightarrow> s | _ \<Rightarrow> [])"


text \<open>A remote config that the matcher can read: a string \<^verbatim>\<open>collection_name\<close> and the three
  other fields, of any type.\<close>

definition config_entry :: "json \<Rightarrow> bool" where
  "config_entry c =
     (is_str (py_getitem c ''collection_name'')
      \<and> returns (py_getitem c ''is_collection_deleted'')
      \<and> returns (py_getitem c ''total_target_count'')
      \<and> returns (py_getitem c ''status_label''))"

text \<open>The matcher in the words of the specification: the name starts with the desired
  name, the config is not soft-deleted, its target count equals the number of requested
  hosts, and its status label is not the executed one. Truth and equality are Python's.\<close>

definition desired_config :: "string \<Rightarrow> string list \<Rightarrow> json \<Rightarrow> bool" where
  "desired_config name hosts c =
     (prefix name (str_field c ''collection_name'')
      \<and> \<not> py_truthy (field c ''is_collection_deleted'')
      \<and> py_eq_int (field c ''total_target_count'') (int (length hosts))
      \<and> field c ''status_label'' \<noteq> JStr ''dc.db.config.status.executed'')"

text \<open>A remote config with the four fields the matcher reads.\<close>

definition config :: "string \<Rightarrow> bool \<Rightarrow> int \<Rightarrow> string \<Rightarrow> json" where
  "config n d t l =
     JObj [(''collection_name'', JStr n), (''is_collection_deleted'', JBool d),
           (''total_target_count'', JInt t), (''status_label'', JStr l)]"

text \<open>The selection in the words of the specification: every whitespace-delimited token
  of the label is a whitespace-delimited token of the description; a patch is wanted
  when some requested label matches its description and its \<^verbatim>\<open>missing\<close> count, as an
  integer, is positive.\<close>

definition label_matches :: "string \<Rightarrow> string \<Rightarrow> bool" where
  "label_matches label description = (set (py_split label) \<subseteq> set (py_split description))"

text \<open>A catalog entry that the selection can read: a string \<^verbatim>\<open>patch_description\<close> and,
  when some requested label matches it, a \<^verbatim>\<open>missing\<close> count that \<^verbatim>\<open>int\<close> accepts (the count
  of an entry that no label matches is never read).\<close>

definition patch_entry :: "string list \<Rightarrow> json \<Rightarrow> bool" where
  "patch_entry patch_types x =
     (is_str (py_getitem x ''patch_description'')
      \<and> ((\<exists>label \<in> set patch_types. label_matches label (str_field x ''patch_description''))
           \<longrightarrow> returns (bind_e (py_getitem x ''missing'') py_int)))"


text \<open>A catalog entry with an id, a description and a \<^verbatim>\<open>missing\<close> count.\<close>

definition patch :: "int \<Rightarrow> string \<Rightarrow> json \<Rightarrow> json" where
  "patch i d m = JObj [(''patch_id'', JInt i), (''patch_description'', JStr d), (''missing'', m)]"

text \<open>The name of a request's status (\<open>JNull\<close> when the read raises).\<close>

definition status_name :: "json \<Rightarrow> json" where
  "status_name r =
     (case bind_e (py_getitem r ''status'') (\<lambda>st. py_getitem st ''name'') of
        Inr n \<Rightarrow> n | Inl e \<Rightarrow> JNull)"

text \<open>A remote request that the matcher can read: a string subject, a status with a
  name, and a string \<^verbatim>\<open>short_description\<close>.\<close>

definition request_entry :: "json \<Rightarrow> bool" where
  "request_entry r =
     (is_str (py_getitem r ''subject'')
      \<and> returns (bind_e (py_getitem r ''status'') (\<lambda>st. py_getitem st ''name''))
      \<and> is_str (py_getitem r ''short_description''))"

text \<open>The matcher in the words of the specification: the description contains every
  given string as a substring; a request is open for the desired name and hosts when
  its subject starts with the name, its status name is \<^verbatim>\<open>Open\<close> and its description
  mentions every host; it is the desired request when it also mentions every patch
  type.\<close>

definition mentions :: "json \<Rightarrow> string list \<Rightarrow> bool" where
  "mentions r strs = (\<forall>s \<in> set strs. sublist s (str_field r ''short_description''))"

definition open_for :: "string \<Rightarrow> string list \<Rightarrow> json \<Rightarrow> bool" where
  "open_for name hosts r =
     (prefix name (str_field r ''subject'')
      \<and> status_name r = JStr ''Open''
      \<and> mentions r hosts)"

definition desired_request :: "string \<Rightarrow> string list \<Rightarrow> string list \<Rightarrow> json \<Rightarrow> bool" where
  "desired_request name hosts patch_types r = (open_for name hosts r \<and> mentions r patch_types)"

text \<open>A remote request with an id, a subject, a status name and a description.\<close>

definition ticket :: "int \<Rightarrow> string \<Rightarrow> string \<Rightarrow> string \<Rightarrow> json" where
  "ticket i s n d =
     JObj [(''id'', JInt i), (''subject'', JStr s), (''status'', JObj [(''name'', JStr n)]),
           (''short_description'', JStr d)]"

text \<open>A remote side of the ticket module: it serves \<open>requests\<close> as the collection of any
  name asked for, and answers the user search, the create and the delete by the given
  replies. \<open>ok j\<close> is the reply with status 200 and body \<open>j\<close>.\<close>

definition sdp_double ::
  "json \<Rightarrow> response option \<Rightarrow> response option \<Rightarrow> response option \<Rightarrow> sdp_remote" where
  "sdp_double requests users post delete c =
     (case c of
        SDP_GET n \<Rightarrow> Some \<lparr>status_code = 200, body = Some (JObj [(n, requests)])\<rparr>
      | SDP_GET_users u \<Rightarrow> users
      | SDP_POST_request s p h d i \<Rightarrow> post
      | SDP_DELETE i \<Rightarrow> delete)"

definition ok :: "json \<Rightarrow> response option" where
  "ok j = Some \<lparr>status_code = 200, body = Some j\<rparr>"

text \<open>The delete reply that the classification accepts: decoded with status 200 or 201,
  and \<^verbatim>\<open>response_status.status\<close> equal to \<^verbatim>\<open>success\<close>.\<close>

definition delete_success :: "response option \<Rightarrow> bool" where
  "delete_success reply =
     (case decoded_sdp reply of
        Inl e \<Rightarrow> False
      | Inr resp \<Rightarrow>
          bind_e (py_getitem resp ''response_status'') (\<lambda>rs. py_getitem rs ''status'')
            = Inr (JStr ''success''))"

text \<open>The classification of a create response in the words of the specification:
  status \<^verbatim>\<open>error\<close> with code \<^verbatim>\<open>3010\<close> is unchanged and not failed, status \<^verbatim>\<open>error\<close> with any
  other code (or none) is failed, and any other status is changed and not failed.\<close>

definition create_rule :: "json \<Rightarrow> outcome \<Rightarrow> bool" where
  "create_rule resp out =
     ((py_getitem resp ''status'' = Inr (JStr ''error'')
         \<and> py_getitem resp ''error_code'' = Inr (JStr ''3010'')
         \<longrightarrow> changed out = Some False \<and> \<not> failed out)
      \<and> (py_getitem resp ''status'' = Inr (JStr ''error'')
         \<and> py_getitem resp ''error_code'' \<noteq> Inr (JStr ''3010'')
         \<longrightarrow> failed out)
      \<and> (returns (py_getitem resp ''status'')
         \<and> py_getitem resp ''status'' \<noteq> Inr (JStr ''error'')
         \<longrightarrow> changed out = Some True \<and> \<not> failed out))"

text \<open>A deployment policy with a name and an id.\<close>

definition deployment_policy :: "string \<Rightarrow> int \<Rightarrow> json" where
  "deployment_policy n i = JObj [(''template_name'', JStr n), (''template_id'', JInt i)]"

text \<open>The policy lookup in the words of the specification: the \<^verbatim>\<open>template_name\<close> of the
  entry is exactly the requested name.\<close>

definition policy_named :: "string \<Rightarrow> json \<Rightarrow> bool" where
  "policy_named n x = (py_getitem x ''template_name'' = Inr (JStr n))"


section \<open>Properties\<close>

subsection \<open>Sequencing and comprehensions\<close>

lemma bind_e_simps [simp]: "bind_e (Inl e) f = Inl e" "bind_e (Inr x) f = f x"
  by (simp_all add: bind_e_def)



lemma any_e_total:
  "\<forall>x\<in>set xs. \<exists>b. p x = Inr b \<Longrightarrow> any_e p xs = Inr (\<exists>x\<in>set xs. p x = Inr True)"
  by (induction xs) auto

lemma all_e_total:
  "\<forall>x\<in>set xs. \<exists>b. p x = Inr b \<Longrightarrow> all_e p xs = Inr (\<forall>x\<in>set xs. p x = Inr True)"
  by (induction xs) auto

lemma next_e_total:
  "\<forall>x\<in>set xs. \<exists>b. p x = Inr b \<Longrightarrow> next_e p xs = Inr (find (\<lambda>x. p x = Inr True) xs)"
  by (induction xs) auto

lemma bind_io_simps [simp]:
  "bind_io (Inl e, cs) f = (Inl e, cs)"
  "bind_io (Inr x, cs) f = (fst (f x), cs @ snd (f x))"
  by (simp_all add: bind_io_def split: prod.splits)

lemma raised_simps [simp]: "raised (Inl e) = Inl (Raised e)" "raised (Inr x) = Inr x"
  by (simp_all add: raised_def)

lemma raised_io_simp [simp]: "raised_io (r, cs) = (raised r, cs)"
  by (simp add: raised_io_def)

lemma get_api_objects_ec_calls [simp]: "snd (get_api_objects_ec remote n) = [EC_GET n]"
  by (simp add: get_api_objects_ec_def)

lemma get_api_objects_sdp_calls [simp]: "snd (get_api_objects_sdp remote n) = [SDP_GET n]"
  by (simp add: get_api_objects_sdp_def)

lemma get_api_objects_ec_eq:
  "fst (get_api_objects_ec remote n) = r \<Longrightarrow> get_api_objects_ec remote n = (r, [EC_GET n])"
  by (metis get_api_objects_ec_calls prod.collapse)

lemma get_api_objects_sdp_eq:
  "fst (get_api_objects_sdp remote n) = r \<Longrightarrow> get_api_objects_sdp remote n = (r, [SDP_GET n])"
  by (metis get_api_objects_sdp_calls prod.collapse)

lemma returns_iff: "returns m \<longleftrightarrow> (\<exists>x. m = Inr x)"
  by (cases m) (simp_all add: returns_def)






subsection \<open>Integer literals\<close>

text \<open>\<^verbatim>\<open>int\<close> drops blanks, tabs and the no-break space around a literal and allows a
  sign and single underscores between digits; it rejects a literal edged by one of the
  separators 28 to 31, a doubled underscore and the empty string.\<close>

lemma int_of_str_examples:
  "int_of_str [CHR 0xA0, CHR ''5'', CHR 0x85] = Inr 5"
  "int_of_str '' +1_000 '' = Inr 1000"
  "int_of_str ''-007'' = Inr (- 7)"
  "int_of_str [CHR 0x1C, CHR ''5''] = Inl ValueError"
  "int_of_str [CHR 0x1F, CHR ''1''] = Inl ValueError"
  "int_of_str [CHR ''5'', CHR 0x1E] = Inl ValueError"
  "int_of_str ''1__0'' = Inl ValueError"
  "int_of_str [] = Inl ValueError"
  by code_simp+

text \<open>An inventory entry or a catalog entry whose number is such a rejected literal is
  not one that the code can read: the conversion raises.\<close>

lemma rejected_literal_examples:
  "\<not> system_entry [''a'']
       (JObj [(''resource_name'', JStr ''a''), (''resource_id'', JStr [CHR 0x1C, CHR ''5''])])"
  "resource_ids
     (JArr [JObj [(''resource_name'', JStr ''a''), (''resource_id'', JStr [CHR 0x1C, CHR ''5''])]])
     [''a''] = Inl ValueError"
  "\<not> patch_entry [''Cumulative Update'']
       (patch 1 ''Cumulative Update'' (JStr [CHR 0x1F, CHR ''1'']))"
  "selected_patches (JArr [patch 1 ''Cumulative Update'' (JStr [CHR 0x1F, CHR ''1''])])
     [''Cumulative Update''] = Inl ValueError"
  by code_simp+

subsection \<open>Resolution of host names to resource ids\<close>





subsection \<open>The matchers and the patch selection\<close>

lemma is_str_iff: "is_str m \<longleftrightarrow> (\<exists>s. m = Inr (JStr s))"
  by (auto simp: is_str_def split: sum.splits json.splits)

lemma config_matches_entry:
  assumes "config_entry c"
  shows "config_matches name hosts c = Inr (desired_config name hosts c)"
proof -
  from assms obtain n d t l where
    "py_getitem c ''collection_name'' = Inr (JStr n)"
    "py_getitem c ''is_collection_deleted'' = Inr d"
    "py_getitem c ''total_target_count'' = Inr t"
    "py_getitem c ''status_label'' = Inr l"
    by (auto simp: config_entry_def is_str_iff returns_iff)
  then show ?thesis
    by (simp add: config_matches_def desired_config_def field_def str_field_def py_eq_str_def)
qed

lemma config_matches_length:
  "length hosts' = length hosts \<Longrightarrow> config_matches name hosts' c = config_matches name hosts c"
  unfolding config_matches_def by (erule ssubst) (rule refl)

text \<open>Claim C4: on remote configs that carry the four fields, \<^verbatim>\<open>check_if_config_exists\<close>
  reports a match if and only if some config has a \<^verbatim>\<open>collection_name\<close> that starts with
  the desired name, is not soft-deleted, has a \<^verbatim>\<open>total_target_count\<close> equal to the number
  of requested hosts, and a status label other than the executed one. The hosts enter
  only through their number: any host list of the same length gives the same answer.\<close>

theorem config_exists_iff:
  assumes "\<forall>c\<in>set configs. config_entry c"
  shows "check_if_config_exists name (JArr configs) hosts
           = Inr (\<exists>c\<in>set configs. desired_config name hosts c)
       \<and> (\<forall>hosts'. length hosts' = length hosts \<longrightarrow>
             check_if_config_exists name (JArr configs) hosts'
               = check_if_config_exists name (JArr configs) hosts)"
proof (intro conjI allI impI)
  have "\<forall>c\<in>set configs. \<exists>b. config_matches name hosts c = Inr b"
    using assms by (simp add: config_matches_entry)
  from any_e_total[OF this]
  have "any_e (config_matches name hosts) configs = Inr (\<exists>c\<in>set configs. desired_config name hosts c)"
    using assms by (simp add: config_matches_entry)
  then show "check_if_config_exists name (JArr configs) hosts
               = Inr (\<exists>c\<in>set configs. desired_config name hosts c)"
    by (simp add: check_if_config_exists_def)
next
  fix hosts' :: "string list" assume "length hosts' = length hosts"
  then have "config_matches name hosts' = config_matches name hosts"
    by (intro ext) (rule config_matches_length)
  then show "check_if_config_exists name (JArr configs) hosts'
               = check_if_config_exists name (JArr configs) hosts"
    by (simp add: check_if_config_exists_def)
qed

theorem config_exists_iff_witness:
  "check_if_config_exists ''Ansible patch''
     (JArr [config ''Ansible patch configuration'' False 2 ''dc.db.config.status.ready'']) [''x'', ''y'']
     = Inr True
   \<and> check_if_config_exists ''Ansible patch''
     (JArr [config ''Ansible patch configuration'' False 2 ''dc.db.config.status.ready'']) [''u'', ''v'']
     = Inr True"
proof -
  let ?c = "config ''Ansible patch configuration'' False 2 ''dc.db.config.status.ready''"
  have wf: "\<forall>c\<in>set [?c]. config_entry c"
    by (simp add: config_entry_def config_def is_str_def returns_def)
  have d: "desired_config ''Ansible patch'' [''x'', ''y''] ?c"
    by (simp add: desired_config_def config_def field_def str_field_def)
  from config_exists_iff[OF wf, of "''Ansible patch''" "[''x'', ''y'']"] d
  have 1: "check_if_config_exists ''Ansible patch'' (JArr [?c]) [''x'', ''y''] = Inr True"
    and 2: "check_if_config_exists ''Ansible patch'' (JArr [?c]) [''u'', ''v'']
              = check_if_config_exists ''Ansible patch'' (JArr [?c]) [''x'', ''y'']"
    by simp_all
  show ?thesis using 1 2 by simp
qed



text \<open>The token comparison is by subset: extra tokens in the description and another order
  do not matter, a missing token, a token that is only a substring of one, and another
  case do.\<close>

lemma label_matches_examples:
  "label_matches ''Cumulative Update for Windows Server''
     ''Security Cumulative Update for Windows Server 2019''"
  "label_matches ''Server Windows'' ''Windows Server''"
  "\<not> label_matches ''Cumulative Update for Windows Server'' ''Cumulative Update''"
  "\<not> label_matches ''Update'' ''Updates for Windows''"
  "\<not> label_matches ''update'' ''Update for Windows''"
  by code_simp+


lemma description_has_entry:
  assumes "py_getitem r ''short_description'' = Inr (JStr d)"
  shows "description_has r strs = Inr (mentions r strs)"
proof -
  have "(\<lambda>s. bind_e (py_getitem r ''short_description'') (\<lambda>d. py_contains d s))
          = (\<lambda>s. Inr (sublist s d))"
    using assms by simp
  then show ?thesis
    using all_e_total[of strs "\<lambda>s. Inr (sublist s d)"] assms
    by (simp add: description_has_def mentions_def str_field_def)
qed

lemma request_matches_entry:
  assumes "request_entry r"
  shows "request_matches name hosts patch_types r =
           (if open_for name hosts r
            then (case patch_types of None \<Rightarrow> Inl TypeError | Some pts \<Rightarrow> Inr (mentions r pts))
            else Inr False)"
proof -
  from assms obtain s st n d where s: "py_getitem r ''subject'' = Inr (JStr s)"
    and n: "bind_e (py_getitem r ''status'') (\<lambda>st. py_getitem st ''name'') = Inr n"
    and d: "py_getitem r ''short_description'' = Inr (JStr d)"
    by (auto simp: request_entry_def is_str_iff returns_iff)
  from n obtain st where st: "py_getitem r ''status'' = Inr st" "py_getitem st ''name'' = Inr n"
    by (cases "py_getitem r ''status''") auto
  show ?thesis
    using s st n
    by (simp add: request_matches_def open_for_def description_has_entry[OF d] status_name_def
        str_field_def py_eq_str_def split: option.splits)
qed

text \<open>Claim C7: on remote requests that carry a subject, a status name and a description,
  \<^verbatim>\<open>find_request\<close> returns the first request, in list order, whose subject starts with
  the desired name, whose status name is \<^verbatim>\<open>Open\<close> and whose description contains every
  requested host name and every requested patch type as a substring; it returns
  \<^verbatim>\<open>None\<close> when there is no such request.\<close>

theorem find_request_first:
  assumes "\<forall>r\<in>set requests. request_entry r"
  shows "find_request name (JArr requests) hosts (Some patch_types)
           = Inr (find (desired_request name hosts patch_types) requests)"
proof -
  let ?p = "request_matches name hosts (Some patch_types)"
  have p: "\<forall>r\<in>set requests. ?p r = Inr (desired_request name hosts patch_types r)"
    using assms by (simp add: request_matches_entry desired_request_def)
  then have "\<forall>r\<in>set requests. \<exists>b. ?p r = Inr b" by blast
  from next_e_total[OF this]
  have "next_e ?p requests = Inr (find (\<lambda>r. ?p r = Inr True) requests)" .
  also have "find (\<lambda>r. ?p r = Inr True) requests = find (desired_request name hosts patch_types) requests"
    using p by (intro find_cong refl) simp
  finally show ?thesis by (simp add: find_request_def)
qed

theorem find_request_first_witness:
  "find_request ''Patch''
     (JArr [ticket 1 ''Patch run'' ''Closed'' ''web01 db01 Cumulative'',
            ticket 2 ''Patch run'' ''Open'' ''web01 Cumulative'',
            ticket 3 ''Patch run'' ''Open'' ''hosts web01, db01: Cumulative Update'',
            ticket 4 ''Patch run'' ''Open'' ''db01 web01 Cumulative''])
     [''web01'', ''db01''] (Some [''Cumulative''])
   = Inr (Some (ticket 3 ''Patch run'' ''Open'' ''hosts web01, db01: Cumulative Update''))"
proof -
  let ?rs = "[ticket 1 ''Patch run'' ''Closed'' ''web01 db01 Cumulative'',
            ticket 2 ''Patch run'' ''Open'' ''web01 Cumulative'',
            ticket 3 ''Patch run'' ''Open'' ''hosts web01, db01: Cumulative Update'',
            ticket 4 ''Patch run'' ''Open'' ''db01 web01 Cumulative'']"
  have wf: "\<forall>r\<in>set ?rs. request_entry r"
    by code_simp
  have "find (desired_request ''Patch'' [''web01'', ''db01''] [''Cumulative'']) ?rs
          = Some (ticket 3 ''Patch run'' ''Open'' ''hosts web01, db01: Cumulative Update'')"
    by code_simp
  with find_request_first[OF wf, of "''Patch''" "[''web01'', ''db01'']" "[''Cumulative'']"]
  show ?thesis by simp
qed

subsection \<open>The reconciler\<close>

lemma pure_io_simp [simp]: "pure_io r = (r, [])"
  by (simp add: pure_io_def)

lemma finish_simps [simp]:
  "finish h (Inr result, cs) = (result, cs)"
  "finish h (Inl (Exited r), cs) = (r, cs)"
  "finish h (Inl (Raised e), cs) = (\<lparr>changed = Some False, failed = True, msg = Caught h e\<rparr>, cs)"
  by (simp_all add: finish_def)

lemma next_e_Some: "next_e p xs = Inr (Some x) \<Longrightarrow> p x = Inr True"
  by (induction xs) (auto split: sum.splits if_splits)

lemma next_e_raise:
  assumes "\<forall>x\<in>set xs. p x = (if q x then Inl e else Inr False)"
  shows "next_e p xs = (if \<exists>x\<in>set xs. q x then Inl e else Inr None)"
  using assms by (induction xs) auto

lemma py_getitem_truthy: "py_getitem r k = Inr v \<Longrightarrow> py_truthy r"
  by (cases r) (auto split: option.splits)

lemma request_matches_truthy:
  assumes "request_matches name hosts patch_types r = Inr True"
  shows "py_truthy r"
proof (cases "py_getitem r ''subject''")
  case (Inl e)
  with assms show ?thesis by (simp add: request_matches_def)
next
  case (Inr v)
  then show ?thesis by (rule py_getitem_truthy)
qed

lemma find_request_found:
  assumes "find_request name requests hosts patch_types = Inr (Some r)"
  shows "found (Some r)"
proof -
  from assms obtain xs where "py_iter requests = Inr xs"
    and "next_e (request_matches name hosts patch_types) xs = Inr (Some r)"
    by (cases "py_iter requests")
       (auto simp: find_request_def fail_json_def split: sum.splits)
  then have "request_matches name hosts patch_types r = Inr True"
    using next_e_Some by fast
  then show ?thesis by (simp add: found_def request_matches_truthy)
qed

lemma run_module_ec_checked:
  assumes "fst (get_api_objects_ec remote ''viewconfig'') = Inr configs"
    and "check_if_config_exists name configs hosts = Inr ex"
  shows "run_module_ec remote name desc policy hosts patch_types Present =
           (if ex
            then (\<lparr>changed = Some False, failed = False, msg = Text ''config already exists''\<rparr>,
                  [EC_GET ''viewconfig''])
            else (fst (finish ''failed to patch hosts: ''
                        (bind_io (patch_hosts remote name desc policy hosts patch_types)
                           (\<lambda>resp. pure_io (classify_create resp)))),
                  EC_GET ''viewconfig''
                    # snd (bind_io (patch_hosts remote name desc policy hosts patch_types)
                           (\<lambda>resp. pure_io (classify_create resp)))))"
  using get_api_objects_ec_eq[OF assms(1)] assms(2)
  by (simp add: run_module_ec_def finish_def)

lemma run_module_sdp_checked:
  assumes "fst (get_api_objects_sdp remote ''requests'') = Inr requests"
    and "find_request name requests hosts patch_types = Inr request"
  shows "run_module_sdp remote name policy hosts patch_types st =
           (let create = bind_io (create_tms_request remote name policy hosts patch_types)
                           (\<lambda>resp. pure_io (classify_create resp));
                delete = (case request of
                      None \<Rightarrow> pure_io (Inl (Raised TypeError))
                    | Some r \<Rightarrow>
                        bind_io (pure_io (raised (py_getitem r ''id''))) (\<lambda>request_id.
                        bind_io (raised_io (delete_tms_ticket remote request_id))
                          (\<lambda>resp. pure_io (classify_delete resp))))
            in case st of
              Present \<Rightarrow>
                if found request
                then (\<lparr>changed = Some False, failed = False, msg = Text ''request already exists''\<rparr>,
                      [SDP_GET ''requests''])
                else (fst (finish ''failed to create request: '' create),
                      SDP_GET ''requests'' # snd create)
            | Absent \<Rightarrow>
                if \<not> found request
                then (\<lparr>changed = Some False, failed = False, msg = Text ''request does not exist''\<rparr>,
                      [SDP_GET ''requests''])
                else (fst (finish ''failed to create request: '' delete),
                      SDP_GET ''requests'' # snd delete))"
  using get_api_objects_sdp_eq[OF assms(1)] assms(2)
  by (cases st) (simp_all add: run_module_sdp_def finish_def Let_def)

text \<open>
  Claim C2: with desired state \<^verbatim>\<open>present\<close>, when the existence matcher reports a matching
  remote object, the only call of the invocation is the read of the collection (no
  call of it is a POST or a DELETE), and the outcome is unchanged and not failed; in the
  patch-config module and in the ticket module.
\<close>

theorem present_existing_noop:
  "(fst (get_api_objects_ec r1 ''viewconfig'') = Inr configs
      \<and> check_if_config_exists name1 configs hosts1 = Inr True \<longrightarrow>
      run_module_ec r1 name1 desc policy1 hosts1 patch_types1 Present
        = (\<lparr>changed = Some False, failed = False, msg = Text ''config already exists''\<rparr>,
           [EC_GET ''viewconfig''])
      \<and> filter ec_mutating
            (snd (run_module_ec r1 name1 desc policy1 hosts1 patch_types1 Present)) = [])
   \<and> (fst (get_api_objects_sdp r2 ''requests'') = Inr requests
      \<and> find_request name2 requests hosts2 patch_types2 = Inr (Some request) \<longrightarrow>
      run_module_sdp r2 name2 policy2 hosts2 patch_types2 Present
        = (\<lparr>changed = Some False, failed = False, msg = Text ''request already exists''\<rparr>,
           [SDP_GET ''requests''])
      \<and> filter sdp_mutating
            (snd (run_module_sdp r2 name2 policy2 hosts2 patch_types2 Present)) = [])"
proof (intro conjI impI)
  assume a: "fst (get_api_objects_ec r1 ''viewconfig'') = Inr configs
      \<and> check_if_config_exists name1 configs hosts1 = Inr True"
  then have run: "run_module_ec r1 name1 desc policy1 hosts1 patch_types1 Present
        = (\<lparr>changed = Some False, failed = False, msg = Text ''config already exists''\<rparr>,
           [EC_GET ''viewconfig''])"
    using run_module_ec_checked[of r1 configs name1 hosts1 True] by simp
  show "run_module_ec r1 name1 desc policy1 hosts1 patch_types1 Present
        = (\<lparr>changed = Some False, failed = False, msg = Text ''config already exists''\<rparr>,
           [EC_GET ''viewconfig''])"
    by (rule run)
  show "filter ec_mutating
          (snd (run_module_ec r1 name1 desc policy1 hosts1 patch_types1 Present)) = []"
    by (simp add: run)
next
  assume a: "fst (get_api_objects_sdp r2 ''requests'') = Inr requests
      \<and> find_request name2 requests hosts2 patch_types2 = Inr (Some request)"
  then have f: "found (Some request)" by (blast intro: find_request_found)
  have run: "run_module_sdp r2 name2 policy2 hosts2 patch_types2 Present
        = (\<lparr>changed = Some False, failed = False, msg = Text ''request already exists''\<rparr>,
           [SDP_GET ''requests''])"
    using a f run_module_sdp_checked[of r2 requests name2 hosts2 patch_types2 "Some request"]
    by simp
  show "run_module_sdp r2 name2 policy2 hosts2 patch_types2 Present
        = (\<lparr>changed = Some False, failed = False, msg = Text ''request already exists''\<rparr>,
           [SDP_GET ''requests''])"
    by (rule run)
  show "filter sdp_mutating
          (snd (run_module_sdp r2 name2 policy2 hosts2 patch_types2 Present)) = []"
    by (simp add: run)
qed

theorem present_existing_noop_witness:
  "run_module_ec
     (ec_double [(''viewconfig'',
        JArr [config ''Ansible patch configuration'' False 2 ''dc.db.config.status.ready''])]
        (\<lambda>d. None))
     ''Ansible patch'' ''Install'' ''Update Servers'' [''x'', ''y''] [''Cumulative''] Present
     = (\<lparr>changed = Some False, failed = False, msg = Text ''config already exists''\<rparr>,
        [EC_GET ''viewconfig''])
   \<and> run_module_sdp
     (sdp_double (JArr [ticket 3 ''Patch run'' ''Open'' ''web01: Cumulative Update'']) None None None)
     ''Patch'' None [''web01''] (Some [''Cumulative'']) Present
     = (\<lparr>changed = Some False, failed = False, msg = Text ''request already exists''\<rparr>,
        [SDP_GET ''requests''])"
proof -
  let ?cs = "JArr [config ''Ansible patch configuration'' False 2 ''dc.db.config.status.ready'']"
  let ?r1 = "ec_double [(''viewconfig'', ?cs)] (\<lambda>d. None)"
  let ?t = "ticket 3 ''Patch run'' ''Open'' ''web01: Cumulative Update''"
  let ?r2 = "sdp_double (JArr [?t]) None None None"
  have 1: "fst (get_api_objects_ec ?r1 ''viewconfig'') = Inr ?cs"
    by (simp add: get_api_objects_ec_def ec_double_def)
  have 2: "check_if_config_exists ''Ansible patch'' ?cs [''x'', ''y''] = Inr True"
    by code_simp
  have 3: "fst (get_api_objects_sdp ?r2 ''requests'') = Inr (JArr [?t])"
    by (simp add: get_api_objects_sdp_def sdp_double_def decoded_sdp_def)
  have 4: "find_request ''Patch'' (JArr [?t]) [''web01''] (Some [''Cumulative'']) = Inr (Some ?t)"
    by code_simp
  show ?thesis
    using present_existing_noop[of ?r1 ?cs "''Ansible patch''" "[''x'', ''y'']" "''Install''"
        "''Update Servers''" "[''Cumulative'']" ?r2 "JArr [?t]" "''Patch''" "[''web01'']"
        "Some [''Cumulative'']" ?t None] 1 2 3 4
    by blast
qed

text \<open>
  Claim C6: in the ticket module with desired state \<^verbatim>\<open>absent\<close>, when the matcher finds no
  request the only call is the read of the requests and the outcome is unchanged and
  not failed; when it finds a request (which carries an id) the calls are that read and
  the delete of that id, and the outcome is changed and not failed exactly when the
  delete reply decodes to a response with \<^verbatim>\<open>response_status.status\<close> equal to \<^verbatim>\<open>success\<close>;
  for every other reply the outcome is failed and unchanged.
\<close>

theorem absent_outcomes:
  assumes "fst (get_api_objects_sdp remote ''requests'') = Inr requests"
  shows "(find_request name requests hosts patch_types = Inr None \<longrightarrow>
            run_module_sdp remote name policy hosts patch_types Absent
              = (\<lparr>changed = Some False, failed = False, msg = Text ''request does not exist''\<rparr>,
                 [SDP_GET ''requests'']))
       \<and> (find_request name requests hosts patch_types = Inr (Some request)
            \<and> py_getitem request ''id'' = Inr request_id \<longrightarrow>
            snd (run_module_sdp remote name policy hosts patch_types Absent)
              = [SDP_GET ''requests'', SDP_DELETE request_id]
            \<and> (if delete_success (remote (SDP_DELETE request_id))
               then changed (fst (run_module_sdp remote name policy hosts patch_types Absent)) = Some True
                  \<and> \<not> failed (fst (run_module_sdp remote name policy hosts patch_types Absent))
               else changed (fst (run_module_sdp remote name policy hosts patch_types Absent)) = Some False
                  \<and> failed (fst (run_module_sdp remote name policy hosts patch_types Absent))))"
proof (intro conjI impI)
  assume "find_request name requests hosts patch_types = Inr None"
  from run_module_sdp_checked[OF assms this, of policy Absent]
  show "run_module_sdp remote name policy hosts patch_types Absent
          = (\<lparr>changed = Some False, failed = False, msg = Text ''request does not exist''\<rparr>,
             [SDP_GET ''requests''])"
    by (simp add: found_def)
next
  assume a: "find_request name requests hosts patch_types = Inr (Some request)
            \<and> py_getitem request ''id'' = Inr request_id"
  then have f: "found (Some request)" by (blast intro: find_request_found)
  let ?delete = "bind_io (raised_io (delete_tms_ticket remote request_id))
                   (\<lambda>resp. pure_io (classify_delete resp))"
  have run: "run_module_sdp remote name policy hosts patch_types Absent
          = (fst (finish ''failed to create request: '' ?delete), SDP_GET ''requests'' # snd ?delete)"
    using run_module_sdp_checked[OF assms, of name hosts patch_types "Some request" policy Absent]
      a f by (simp add: Let_def)
  show "snd (run_module_sdp remote name policy hosts patch_types Absent)
          = [SDP_GET ''requests'', SDP_DELETE request_id]"
    unfolding run
    by (cases "decoded_sdp (remote (SDP_DELETE request_id))") (simp_all add: delete_tms_ticket_def)
  show "if delete_success (remote (SDP_DELETE request_id))
        then changed (fst (run_module_sdp remote name policy hosts patch_types Absent)) = Some True
           \<and> \<not> failed (fst (run_module_sdp remote name policy hosts patch_types Absent))
        else changed (fst (run_module_sdp remote name policy hosts patch_types Absent)) = Some False
           \<and> failed (fst (run_module_sdp remote name policy hosts patch_types Absent))"
  proof (cases "decoded_sdp (remote (SDP_DELETE request_id))")
    case (Inl e)
    then show ?thesis
      unfolding run by (simp add: delete_tms_ticket_def delete_success_def)
  next
    case (Inr resp)
    show ?thesis
    proof (cases "bind_e (py_getitem resp ''response_status'') (\<lambda>rs. py_getitem rs ''status'')")
      case (Inl e)
      with Inr show ?thesis
        unfolding run
        by (simp add: delete_tms_ticket_def delete_success_def classify_delete_def)
    next
      case s: (Inr s)
      with Inr show ?thesis
        unfolding run
        by (simp add: delete_tms_ticket_def delete_success_def classify_delete_def
            py_eq_str_def fail_json_def)
    qed
  qed
qed

theorem absent_outcomes_witness:
  "run_module_sdp
     (sdp_double (JArr [ticket 3 ''Patch run'' ''Open'' ''web01: Cumulative Update'']) None None
        (ok (JObj [(''response_status'', JObj [(''status'', JStr ''success'')])])))
     ''Patch'' None [''web01''] (Some [''Cumulative'']) Absent
   = (\<lparr>changed = Some True, failed = False,
        msg = Data (JObj [(''response_status'', JObj [(''status'', JStr ''success'')])])\<rparr>,
      [SDP_GET ''requests'', SDP_DELETE (JInt 3)])"
proof -
  let ?t = "ticket 3 ''Patch run'' ''Open'' ''web01: Cumulative Update''"
  let ?resp = "JObj [(''response_status'', JObj [(''status'', JStr ''success'')])]"
  let ?r = "sdp_double (JArr [?t]) None None (ok ?resp)"
  let ?run = "run_module_sdp ?r ''Patch'' None [''web01''] (Some [''Cumulative'']) Absent"
  have 1: "fst (get_api_objects_sdp ?r ''requests'') = Inr (JArr [?t])"
    by (simp add: get_api_objects_sdp_def sdp_double_def decoded_sdp_def)
  have 2: "find_request ''Patch'' (JArr [?t]) [''web01''] (Some [''Cumulative'']) = Inr (Some ?t)"
    by code_simp
  have 3: "py_getitem ?t ''id'' = Inr (JInt 3)"
    by (simp add: ticket_def)
  have 4: "delete_success (?r (SDP_DELETE (JInt 3)))"
    by (simp add: delete_success_def sdp_double_def ok_def decoded_sdp_def)
  from absent_outcomes[OF 1, of "''Patch''" "[''web01'']" "Some [''Cumulative'']" None ?t "JInt 3"]
    2 3 4
  have "snd ?run = [SDP_GET ''requests'', SDP_DELETE (JInt 3)]"
    and "changed (fst ?run) = Some True" and "\<not> failed (fst ?run)"
    by simp_all
  moreover have "msg (fst ?run) = Data ?resp"
    by code_simp
  ultimately show ?thesis
    by (cases ?run, cases "fst ?run") simp
qed

subsection \<open>Classification of responses and the omitted patch types\<close>

lemma find_request_omitted_entry:
  assumes "\<forall>r\<in>set requests. request_entry r"
  shows "find_request name (JArr requests) hosts None =
           (if \<exists>r\<in>set requests. open_for name hosts r
            then fail_json (Caught ''Failed to find existing request '' TypeError) (Some False)
            else Inr None)"
proof -
  have "\<forall>r\<in>set requests. request_matches name hosts None r
          = (if open_for name hosts r then Inl TypeError else Inr False)"
    using assms by (simp add: request_matches_entry)
  from next_e_raise[OF this] show ?thesis
    by (simp add: find_request_def)
qed

lemma run_module_sdp_exited:
  assumes "fst (get_api_objects_sdp remote ''requests'') = Inr requests"
    and "find_request name requests hosts patch_types = Inl (Exited out)"
  shows "run_module_sdp remote name policy hosts patch_types st = (out, [SDP_GET ''requests''])"
  using get_api_objects_sdp_eq[OF assms(1)] assms(2)
  by (simp add: run_module_sdp_def)

text \<open>
  Claim C9 as stated fails: a request that passes the two leading checks (subject and
  status) but whose description lacks a requested host stops the conjunction at the
  third conjunct, so the omitted \<^verbatim>\<open>patch_types\<close> is never iterated and the check returns
  \<^verbatim>\<open>None\<close> without raising.
\<close>

theorem find_request_omitted_counterexample:
  "find_request ''Request created by Ansible''
     (JArr [ticket 7 ''Request created by Ansible'' ''Open'' ''updates for web01''])
     [''db01''] None
   = Inr None"
  by code_simp

text \<open>
  Claim C9, amended: with \<^verbatim>\<open>patch_types\<close> omitted, on requests that carry a subject, a
  status name and a description, the existence check raises (and the invocation ends
  failed, unchanged, after the read of the requests) exactly when some request passes
  the three leading checks: its subject starts with the desired name, its status name
  is \<^verbatim>\<open>Open\<close> and its description contains every requested host. When no request passes
  them, in particular when none passes the first two, the check returns \<^verbatim>\<open>None\<close>.
\<close>

theorem find_request_omitted:
  assumes "\<forall>r\<in>set requests. request_entry r"
  shows "find_request name (JArr requests) hosts None =
           (if \<exists>r\<in>set requests. open_for name hosts r
            then fail_json (Caught ''Failed to find existing request '' TypeError) (Some False)
            else Inr None)
       \<and> (fst (get_api_objects_sdp remote ''requests'') = Inr (JArr requests)
            \<and> (\<exists>r\<in>set requests. open_for name hosts r) \<longrightarrow>
            run_module_sdp remote name policy hosts None st
              = (\<lparr>changed = Some False, failed = True,
                   msg = Caught ''Failed to find existing request '' TypeError\<rparr>,
                 [SDP_GET ''requests'']))
       \<and> ((\<forall>r\<in>set requests. \<not> (prefix name (str_field r ''subject'')
                                   \<and> status_name r = JStr ''Open'')) \<longrightarrow>
            find_request name (JArr requests) hosts None = Inr None)"
proof (intro conjI impI)
  show "find_request name (JArr requests) hosts None =
           (if \<exists>r\<in>set requests. open_for name hosts r
            then fail_json (Caught ''Failed to find existing request '' TypeError) (Some False)
            else Inr None)"
    by (rule find_request_omitted_entry[OF assms])
next
  assume a: "fst (get_api_objects_sdp remote ''requests'') = Inr (JArr requests)
            \<and> (\<exists>r\<in>set requests. open_for name hosts r)"
  then have "find_request name (JArr requests) hosts None
      = Inl (Exited \<lparr>changed = Some False, failed = True,
                     msg = Caught ''Failed to find existing request '' TypeError\<rparr>)"
    by (simp add: find_request_omitted_entry[OF assms] fail_json_def)
  with a show "run_module_sdp remote name policy hosts None st
              = (\<lparr>changed = Some False, failed = True,
                   msg = Caught ''Failed to find existing request '' TypeError\<rparr>,
                 [SDP_GET ''requests''])"
    by (simp add: run_module_sdp_exited)
next
  assume "\<forall>r\<in>set requests. \<not> (prefix name (str_field r ''subject'')
                                   \<and> status_name r = JStr ''Open'')"
  then have "\<not> (\<exists>r\<in>set requests. open_for name hosts r)"
    by (auto simp: open_for_def)
  then show "find_request name (JArr requests) hosts None = Inr None"
    by (simp add: find_request_omitted_entry[OF assms])
qed

theorem find_request_omitted_witness:
  "run_module_sdp
     (sdp_double (JArr [ticket 7 ''Request created by Ansible'' ''Open'' ''updates for web01''])
        None None None)
     ''Request created by Ansible'' None [''web01''] None Present
   = (\<lparr>changed = Some False, failed = True,
        msg = Caught ''Failed to find existing request '' TypeError\<rparr>,
      [SDP_GET ''requests''])"
proof -
  let ?t = "ticket 7 ''Request created by Ansible'' ''Open'' ''updates for web01''"
  let ?r = "sdp_double (JArr [?t]) None None None"
  have wf: "\<forall>r\<in>set [?t]. request_entry r"
    by code_simp
  have 1: "fst (get_api_objects_sdp ?r ''requests'') = Inr (JArr [?t])"
    by (simp add: get_api_objects_sdp_def sdp_double_def decoded_sdp_def)
  have 2: "\<exists>r\<in>set [?t]. open_for ''Request created by Ansible'' [''web01''] r"
    by code_simp
  from find_request_omitted[OF wf, where remote = ?r and name = "''Request created by Ansible''"
      and hosts = "[''web01'']" and policy = None and st = Present]
    1 2
  show ?thesis by blast
qed

lemma classify_create_rule:
  "create_rule resp (fst (finish h (classify_create resp, cs)))"
proof (cases "py_getitem resp ''status''")
  case (Inl e)
  then show ?thesis by (simp add: create_rule_def classify_create_def returns_def)
next
  case st: (Inr s)
  show ?thesis
  proof (cases "py_getitem resp ''error_code''")
    case (Inl e)
    with st show ?thesis
      by (simp add: create_rule_def classify_create_def returns_def py_eq_str_def)
  next
    case (Inr code)
    with st show ?thesis
      by (simp add: create_rule_def classify_create_def returns_def py_eq_str_def fail_json_def)
  qed
qed

lemma bind_io_returned:
  "fst m = Inr x \<Longrightarrow> bind_io m f = (fst (f x), snd m @ snd (f x))"
  by (cases m) simp

text \<open>
  Claim C1: in both modules, once the create call has returned a response, the outcome
  follows the response: status \<^verbatim>\<open>error\<close> with error code \<^verbatim>\<open>3010\<close> gives changed=false and
  failed=false, status \<^verbatim>\<open>error\<close> with any other error code gives failed=true, and a status
  other than \<^verbatim>\<open>error\<close> gives changed=true and failed=false.
\<close>

theorem create_classified:
  "(fst (get_api_objects_ec r1 ''viewconfig'') = Inr configs
      \<and> check_if_config_exists name1 configs hosts1 = Inr False
      \<and> fst (patch_hosts r1 name1 desc policy1 hosts1 patch_types1) = Inr resp1 \<longrightarrow>
      create_rule resp1 (fst (run_module_ec r1 name1 desc policy1 hosts1 patch_types1 Present)))
   \<and> (fst (get_api_objects_sdp r2 ''requests'') = Inr requests
      \<and> find_request name2 requests hosts2 patch_types2 = Inr None
      \<and> fst (create_tms_request r2 name2 policy2 hosts2 patch_types2) = Inr resp2 \<longrightarrow>
      create_rule resp2 (fst (run_module_sdp r2 name2 policy2 hosts2 patch_types2 Present)))"
proof (intro conjI impI)
  assume a: "fst (get_api_objects_ec r1 ''viewconfig'') = Inr configs
      \<and> check_if_config_exists name1 configs hosts1 = Inr False
      \<and> fst (patch_hosts r1 name1 desc policy1 hosts1 patch_types1) = Inr resp1"
  let ?ph = "patch_hosts r1 name1 desc policy1 hosts1 patch_types1"
  have "fst (run_module_ec r1 name1 desc policy1 hosts1 patch_types1 Present)
          = fst (finish ''failed to patch hosts: '' (classify_create resp1, snd ?ph))"
    using a run_module_ec_checked[of r1 configs name1 hosts1 False desc policy1 patch_types1]
    by (simp add: bind_io_returned finish_def)
  then show "create_rule resp1 (fst (run_module_ec r1 name1 desc policy1 hosts1 patch_types1 Present))"
    by (simp only: classify_create_rule)
next
  assume a: "fst (get_api_objects_sdp r2 ''requests'') = Inr requests
      \<and> find_request name2 requests hosts2 patch_types2 = Inr None
      \<and> fst (create_tms_request r2 name2 policy2 hosts2 patch_types2) = Inr resp2"
  let ?cr = "create_tms_request r2 name2 policy2 hosts2 patch_types2"
  have "fst (run_module_sdp r2 name2 policy2 hosts2 patch_types2 Present)
          = fst (finish ''failed to create request: '' (classify_create resp2, snd ?cr))"
    using a run_module_sdp_checked[of r2 requests name2 hosts2 patch_types2 None policy2 Present]
    by (simp add: bind_io_returned finish_def found_def Let_def)
  then show "create_rule resp2 (fst (run_module_sdp r2 name2 policy2 hosts2 patch_types2 Present))"
    by (simp only: classify_create_rule)
qed

theorem create_classified_witness:
  "changed (fst (run_module_ec
      (ec_double [(''viewconfig'', JArr []),
                  (''allsystems'', JArr [system ''web01'' 11]),
                  (''allpatches'', JArr [patch 101 ''Cumulative Update for Windows Server'' (JInt 1)]),
                  (''deploymentpolicies'', JArr [deployment_policy ''Update Servers'' 5])]
         (\<lambda>d. ok (JObj [(''status'', JStr ''error''), (''error_code'', JStr ''3010'')])))
      ''Ansible patch'' ''Install'' ''Update Servers'' [''web01''] [''Cumulative Update''] Present))
     = Some False
   \<and> \<not> failed (fst (run_module_ec
      (ec_double [(''viewconfig'', JArr []),
                  (''allsystems'', JArr [system ''web01'' 11]),
                  (''allpatches'', JArr [patch 101 ''Cumulative Update for Windows Server'' (JInt 1)]),
                  (''deploymentpolicies'', JArr [deployment_policy ''Update Servers'' 5])]
         (\<lambda>d. ok (JObj [(''status'', JStr ''error''), (''error_code'', JStr ''3010'')])))
      ''Ansible patch'' ''Install'' ''Update Servers'' [''web01''] [''Cumulative Update''] Present))
   \<and> changed (fst (run_module_sdp
      (sdp_double (JArr []) (ok (JObj [(''users'', JArr [JObj [(''id'', JStr ''42'')]])]))
         (ok (JObj [(''request'', JObj [(''id'', JStr ''9''),
                                        (''status'', JObj [(''name'', JStr ''Open'')])])]))
         None)
      ''Patch'' None [''web01''] (Some [''Cumulative'']) Present))
     = Some True"
proof -
  let ?r1 = "ec_double [(''viewconfig'', JArr []),
                  (''allsystems'', JArr [system ''web01'' 11]),
                  (''allpatches'', JArr [patch 101 ''Cumulative Update for Windows Server'' (JInt 1)]),
                  (''deploymentpolicies'', JArr [deployment_policy ''Update Servers'' 5])]
         (\<lambda>d. ok (JObj [(''status'', JStr ''error''), (''error_code'', JStr ''3010'')]))"
  let ?resp1 = "JObj [(''status'', JStr ''error''), (''error_code'', JStr ''3010'')]"
  let ?req = "JObj [(''id'', JStr ''9''), (''status'', JObj [(''name'', JStr ''Open'')])]"
  let ?r2 = "sdp_double (JArr []) (ok (JObj [(''users'', JArr [JObj [(''id'', JStr ''42'')]])]))
         (ok (JObj [(''request'', ?req)])) None"
  have 1: "fst (get_api_objects_ec ?r1 ''viewconfig'') = Inr (JArr [])"
    by code_simp
  have 2: "check_if_config_exists ''Ansible patch'' (JArr []) [''web01''] = Inr False"
    by code_simp
  have 3: "fst (patch_hosts ?r1 ''Ansible patch'' ''Install'' ''Update Servers'' [''web01'']
                  [''Cumulative Update'']) = Inr ?resp1"
    by code_simp
  have 4: "fst (get_api_objects_sdp ?r2 ''requests'') = Inr (JArr [])"
    by code_simp
  have 5: "find_request ''Patch'' (JArr []) [''web01''] (Some [''Cumulative'']) = Inr None"
    by code_simp
  have 6: "fst (create_tms_request ?r2 ''Patch'' None [''web01''] (Some [''Cumulative''])) = Inr ?req"
    by code_simp
  from create_classified[where ?r1.0 = ?r1 and configs = "JArr []" and ?name1.0 = "''Ansible patch''"
      and ?hosts1.0 = "[''web01'']" and desc = "''Install''" and ?policy1.0 = "''Update Servers''"
      and ?patch_types1.0 = "[''Cumulative Update'']" and ?resp1.0 = ?resp1
      and ?r2.0 = ?r2 and requests = "JArr []" and ?name2.0 = "''Patch''" and ?hosts2.0 = "[''web01'']"
      and ?patch_types2.0 = "Some [''Cumulative'']" and ?policy2.0 = None and ?resp2.0 = ?req]
    1 2 3 4 5 6
  have a: "create_rule ?resp1 (fst (run_module_ec ?r1 ''Ansible patch'' ''Install'' ''Update Servers''
              [''web01''] [''Cumulative Update''] Present))"
    and b: "create_rule ?req (fst (run_module_sdp ?r2 ''Patch'' None [''web01'']
              (Some [''Cumulative'']) Present))"
    by blast+
  from a have "changed (fst (run_module_ec ?r1 ''Ansible patch'' ''Install'' ''Update Servers''
              [''web01''] [''Cumulative Update''] Present)) = Some False
      \<and> \<not> failed (fst (run_module_ec ?r1 ''Ansible patch'' ''Install'' ''Update Servers''
              [''web01''] [''Cumulative Update''] Present))"
    by (simp add: create_rule_def)
  moreover from b have "changed (fst (run_module_sdp ?r2 ''Patch'' None [''web01'']
              (Some [''Cumulative'']) Present)) = Some True"
    by (simp add: create_rule_def returns_def)
  ultimately show ?thesis by blast
qed

lemma get_user_by_username_calls [simp]:
  "snd (get_user_by_username remote u) = [SDP_GET_users u]"
  by (simp add: get_user_by_username_def)

text \<open>
  Claim C10: in the ticket module a create that is answered with HTTP 200 or 201
  returns the object under the \<^verbatim>\<open>request\<close> key of the body, and the classification reads
  the \<^verbatim>\<open>status\<close> of that object, not of the body: whenever that status is not the string
  \<^verbatim>\<open>error\<close>, the outcome is changed=true and failed=false, with the unwrapped object as
  message, after the calls read, user search and create.
\<close>

theorem create_unwraps_request:
  assumes "fst (get_api_objects_sdp remote ''requests'') = Inr requests"
    and "find_request name requests hosts patch_types = Inr None"
    and "fst (get_user_by_username remote ''sv-automation'') = Inr user"
    and "bind_e (py_getitem user ''id'') py_int = Inr uid"
    and "remote (SDP_POST_request name patch_types hosts policy uid) = Some reply"
    and "status_code reply = 200 \<or> status_code reply = 201"
    and "body reply = Some j"
    and "py_getitem j ''request'' = Inr req"
    and "py_getitem req ''status'' = Inr s"
    and "s \<noteq> JStr ''error''"
  shows "fst (create_tms_request remote name policy hosts patch_types) = Inr req
       \<and> run_module_sdp remote name policy hosts patch_types Present
           = (\<lparr>changed = Some True, failed = False, msg = Data req\<rparr>,
              [SDP_GET ''requests'', SDP_GET_users ''sv-automation'',
               SDP_POST_request name patch_types hosts policy uid])"
proof -
  have user: "get_user_by_username remote ''sv-automation''
                = (Inr user, [SDP_GET_users ''sv-automation''])"
    using assms(3) by (metis get_user_by_username_calls prod.collapse)
  have dec: "decoded_sdp (remote (SDP_POST_request name patch_types hosts policy uid)) = Inr j"
    using assms(5,6,7) by (auto simp: decoded_sdp_def)
  have create: "create_tms_request remote name policy hosts patch_types
                  = (Inr req, [SDP_GET_users ''sv-automation'',
                               SDP_POST_request name patch_types hosts policy uid])"
    using assms(4,8) by (simp add: create_tms_request_def user dec)
  have cls: "classify_create req = Inr \<lparr>changed = Some True, failed = False, msg = Data req\<rparr>"
    using assms(9,10) by (simp add: classify_create_def py_eq_str_def)
  have "run_module_sdp remote name policy hosts patch_types Present
           = (\<lparr>changed = Some True, failed = False, msg = Data req\<rparr>,
              [SDP_GET ''requests'', SDP_GET_users ''sv-automation'',
               SDP_POST_request name patch_types hosts policy uid])"
    using run_module_sdp_checked[OF assms(1,2), of policy Present]
    by (simp add: found_def Let_def create cls)
  with create show ?thesis by simp
qed

theorem create_unwraps_request_witness:
  "run_module_sdp
     (sdp_double (JArr []) (ok (JObj [(''users'', JArr [JObj [(''id'', JStr ''42'')]])]))
        (ok (JObj [(''status'', JStr ''error''),
                   (''request'', JObj [(''id'', JStr ''9''),
                                       (''status'', JObj [(''name'', JStr ''Open'')])])]))
        None)
     ''Patch'' None [''web01''] (Some [''Cumulative'']) Present
   = (\<lparr>changed = Some True, failed = False,
        msg = Data (JObj [(''id'', JStr ''9''), (''status'', JObj [(''name'', JStr ''Open'')])])\<rparr>,
      [SDP_GET ''requests'', SDP_GET_users ''sv-automation'',
       SDP_POST_request ''Patch'' (Some [''Cumulative'']) [''web01''] None 42])"
proof -
  let ?req = "JObj [(''id'', JStr ''9''), (''status'', JObj [(''name'', JStr ''Open'')])]"
  let ?j = "JObj [(''status'', JStr ''error''), (''request'', ?req)]"
  let ?user = "JObj [(''id'', JStr ''42'')]"
  let ?r = "sdp_double (JArr []) (ok (JObj [(''users'', JArr [?user])])) (ok ?j) None"
  have 1: "fst (get_api_objects_sdp ?r ''requests'') = Inr (JArr [])"
    by code_simp
  have 2: "find_request ''Patch'' (JArr []) [''web01''] (Some [''Cumulative'']) = Inr None"
    by code_simp
  have 3: "fst (get_user_by_username ?r ''sv-automation'') = Inr ?user"
    by code_simp
  have 4: "bind_e (py_getitem ?user ''id'') py_int = Inr 42"
    by code_simp
  have 5: "?r (SDP_POST_request ''Patch'' (Some [''Cumulative'']) [''web01''] None 42)
             = Some \<lparr>status_code = 200, body = Some ?j\<rparr>"
    by (simp add: sdp_double_def ok_def)
  have 6: "status_code \<lparr>status_code = 200, body = Some ?j\<rparr> = 200
             \<or> status_code \<lparr>status_code = 200, body = Some ?j\<rparr> = 201"
    by simp
  have 7: "body \<lparr>status_code = 200, body = Some ?j\<rparr> = Some ?j" by simp
  have 8: "py_getitem ?j ''request'' = Inr ?req" by simp
  have 9: "py_getitem ?req ''status'' = Inr (JObj [(''name'', JStr ''Open'')])" by simp
  have 10: "JObj [(''name'', JStr ''Open'')] \<noteq> JStr ''error''" by simp
  from create_unwraps_request[OF 1 2 3 4 5 6 7 8 9 10]
  show ?thesis by simp
qed

subsection \<open>Resolution of the deployment policy\<close>

lemma policy_id_entry:
  assumes "\<forall>x\<in>set policies. returns (py_getitem x ''template_name'')"
  shows "policy_id (JArr policies) policy_name =
           (case find (policy_named policy_name) policies of
              None \<Rightarrow> fail_json (Text ''failed to find deployment policy'') (Some False)
            | Some x \<Rightarrow> raised (py_getitem x ''template_id''))"
proof -
  let ?p = "\<lambda>x. bind_e (py_getitem x ''template_name'') (\<lambda>n. Inr (py_eq_str n policy_name))"
  have p: "\<forall>x\<in>set policies. ?p x = Inr (policy_named policy_name x)"
    using assms by (auto simp: returns_iff policy_named_def py_eq_str_def)
  then have "\<forall>x\<in>set policies. \<exists>b. ?p x = Inr b" by blast
  from next_e_total[OF this]
  have "next_e ?p policies = Inr (find (\<lambda>x. ?p x = Inr True) policies)" .
  also have "find (\<lambda>x. ?p x = Inr True) policies = find (policy_named policy_name) policies"
    using p by (intro find_cong refl) simp
  finally show ?thesis
    by (simp add: policy_id_def split: option.splits)
qed

lemma get_resource_ids_ec_pair:
  "get_resource_ids_for_patching_ec remote hosts
     = (fst (get_resource_ids_for_patching_ec remote hosts), [EC_GET ''allsystems''])"
proof (cases "fst (get_api_objects_ec remote ''allsystems'')")
  case (Inl e)
  from get_api_objects_ec_eq[OF this] show ?thesis
    by (simp add: get_resource_ids_for_patching_ec_def)
next
  case (Inr v)
  from get_api_objects_ec_eq[OF this] show ?thesis
    by (simp add: get_resource_ids_for_patching_ec_def)
qed

lemma get_resource_ids_ec_eq:
  "fst (get_resource_ids_for_patching_ec remote hosts) = r \<Longrightarrow>
     get_resource_ids_for_patching_ec remote hosts = (r, [EC_GET ''allsystems''])"
  using get_resource_ids_ec_pair[of remote hosts] by simp

lemma api_post_pair: "api_post remote e d = (fst (api_post remote e d), [EC_POST e d])"
  by (simp add: api_post_def)

text \<open>\<^verbatim>\<open>patch_hosts\<close> when the steps before the policy lookup have returned.\<close>

lemma patch_hosts_resolved:
  assumes "fst (get_resource_ids_for_patching_ec remote hosts) = Inr rids"
    and "fst (get_api_objects_ec remote ''allpatches'') = Inr all_patches"
    and "selected_patches all_patches patch_types = Inr sel"
    and "map_e (\<lambda>x. py_getitem x ''patch_id'') sel = Inr pids"
    and "fst (get_api_objects_ec remote ''deploymentpolicies'') = Inr policies"
  shows "patch_hosts remote name desc policy_name hosts patch_types =
           (case policy_id policies policy_name of
              Inl a \<Rightarrow> (Inl a, [EC_GET ''allsystems'', EC_GET ''allpatches'',
                                EC_GET ''deploymentpolicies''])
            | Inr pid \<Rightarrow>
                (raised (fst (api_post remote ''patch/installpatch''
                               (install_data pids rids name desc pid))),
                 [EC_GET ''allsystems'', EC_GET ''allpatches'', EC_GET ''deploymentpolicies'',
                  EC_POST ''patch/installpatch'' (install_data pids rids name desc pid)]))"
proof (cases "policy_id policies policy_name")
  case (Inl a)
  then show ?thesis
    by (simp add: patch_hosts_def get_resource_ids_ec_eq[OF assms(1)]
        get_api_objects_ec_eq[OF assms(2)] assms(3,4) get_api_objects_ec_eq[OF assms(5)])
next
  case (Inr pid)
  have post: "raised_io (api_post remote ''patch/installpatch'' (install_data pids rids name desc pid))
      = (raised (fst (api_post remote ''patch/installpatch'' (install_data pids rids name desc pid))),
         [EC_POST ''patch/installpatch'' (install_data pids rids name desc pid)])"
    by (simp add: raised_io_def api_post_def)
  show ?thesis
    by (simp add: patch_hosts_def get_resource_ids_ec_eq[OF assms(1)]
        get_api_objects_ec_eq[OF assms(2)] assms(3,4) get_api_objects_ec_eq[OF assms(5)]
        Inr post)
qed

text \<open>\<^verbatim>\<open>patch_hosts\<close> when the policy lookup exits: whatever the earlier steps do, it ends
  early, by an exception or by that exit, and has made no POST.\<close>

lemma patch_hosts_unresolved:
  assumes "fst (get_api_objects_ec remote ''deploymentpolicies'') = Inr policies"
    and "policy_id policies policy_name = Inl (Exited out)"
  shows "(fst (patch_hosts remote name desc policy_name hosts patch_types) = Inl (Exited out)
          \<or> (\<exists>e. fst (patch_hosts remote name desc policy_name hosts patch_types) = Inl (Raised e)))
       \<and> filter ec_mutating (snd (patch_hosts remote name desc policy_name hosts patch_types)) = []"
proof (cases "fst (get_resource_ids_for_patching_ec remote hosts)")
  case (Inl e)
  show ?thesis
    by (simp add: patch_hosts_def get_resource_ids_ec_eq[OF Inl])
next
  case rids: (Inr rids)
  show ?thesis
  proof (cases "fst (get_api_objects_ec remote ''allpatches'')")
    case (Inl e)
    show ?thesis
      by (simp add: patch_hosts_def get_resource_ids_ec_eq[OF rids] get_api_objects_ec_eq[OF Inl])
  next
    case ap: (Inr all_patches)
    show ?thesis
    proof (cases "selected_patches all_patches patch_types")
      case (Inl e)
      show ?thesis
        by (simp add: patch_hosts_def get_resource_ids_ec_eq[OF rids]
            get_api_objects_ec_eq[OF ap] Inl)
    next
      case sel: (Inr sel)
      show ?thesis
      proof (cases "map_e (\<lambda>x. py_getitem x ''patch_id'') sel")
        case (Inl e)
        show ?thesis
          by (simp add: patch_hosts_def get_resource_ids_ec_eq[OF rids]
              get_api_objects_ec_eq[OF ap] sel Inl)
      next
        case (Inr pids)
        show ?thesis
          by (simp add: patch_hosts_resolved[OF rids ap sel Inr assms(1)] assms(2))
      qed
    qed
  qed
qed

lemma bind_io_aborted: "fst m = Inl a \<Longrightarrow> bind_io m f = (Inl a, snd m)"
  by (cases m) simp

text \<open>
  Claim C8: on deployment policies that carry a \<^verbatim>\<open>template_name\<close>, the policy lookup
  yields the \<^verbatim>\<open>template_id\<close> of the first policy whose name equals the requested name,
  and that id is the \<^verbatim>\<open>DeploymentPolicyTemplateID\<close> of the payload posted. When no policy
  has the name, the lookup ends the invocation through \<^verbatim>\<open>fail_json\<close>: the outcome is failed
  and unchanged and no POST is made, whatever the earlier reads did; when those reads
  returned, the message is that the deployment policy was not found.
\<close>

theorem policy_resolution:
  assumes "\<forall>x\<in>set policies. returns (py_getitem x ''template_name'')"
    and "fst (get_api_objects_ec remote ''deploymentpolicies'') = Inr (JArr policies)"
  shows "policy_id (JArr policies) policy_name =
           (case find (policy_named policy_name) policies of
              None \<Rightarrow> fail_json (Text ''failed to find deployment policy'') (Some False)
            | Some x \<Rightarrow> raised (py_getitem x ''template_id''))
       \<and> (fst (get_api_objects_ec remote ''viewconfig'') = Inr configs
            \<and> check_if_config_exists name configs hosts = Inr False
            \<and> find (policy_named policy_name) policies = None \<longrightarrow>
            failed (fst (run_module_ec remote name desc policy_name hosts patch_types Present))
            \<and> changed (fst (run_module_ec remote name desc policy_name hosts patch_types Present))
                = Some False
            \<and> filter ec_mutating
                 (snd (run_module_ec remote name desc policy_name hosts patch_types Present)) = [])
       \<and> (fst (get_resource_ids_for_patching_ec remote hosts) = Inr rids
            \<and> fst (get_api_objects_ec remote ''allpatches'') = Inr all_patches
            \<and> selected_patches all_patches patch_types = Inr sel
            \<and> map_e (\<lambda>x. py_getitem x ''patch_id'') sel = Inr pids \<longrightarrow>
            (case find (policy_named policy_name) policies of
               None \<Rightarrow>
                 patch_hosts remote name desc policy_name hosts patch_types
                   = (fail_json (Text ''failed to find deployment policy'') (Some False),
                      [EC_GET ''allsystems'', EC_GET ''allpatches'', EC_GET ''deploymentpolicies''])
             | Some x \<Rightarrow>
                 (case py_getitem x ''template_id'' of
                    Inl e \<Rightarrow>
                      patch_hosts remote name desc policy_name hosts patch_types
                        = (Inl (Raised e),
                           [EC_GET ''allsystems'', EC_GET ''allpatches'',
                            EC_GET ''deploymentpolicies''])
                  | Inr template_id \<Rightarrow>
                      snd (patch_hosts remote name desc policy_name hosts patch_types)
                        = [EC_GET ''allsystems'', EC_GET ''allpatches'',
                           EC_GET ''deploymentpolicies'',
                           EC_POST ''patch/installpatch''
                             (install_data pids rids name desc template_id)])))"
proof (intro conjI impI)
  show pid: "policy_id (JArr policies) policy_name =
           (case find (policy_named policy_name) policies of
              None \<Rightarrow> fail_json (Text ''failed to find deployment policy'') (Some False)
            | Some x \<Rightarrow> raised (py_getitem x ''template_id''))"
    by (rule policy_id_entry[OF assms(1)])
  {
    assume a: "fst (get_api_objects_ec remote ''viewconfig'') = Inr configs
            \<and> check_if_config_exists name configs hosts = Inr False
            \<and> find (policy_named policy_name) policies = None"
    let ?out = "\<lparr>changed = Some False, failed = True,
                 msg = Text ''failed to find deployment policy''\<rparr>"
    let ?ph = "patch_hosts remote name desc policy_name hosts patch_types"
    let ?run = "run_module_ec remote name desc policy_name hosts patch_types Present"
    have ex: "policy_id (JArr policies) policy_name = Inl (Exited ?out)"
      using a pid by (simp add: fail_json_def)
    from patch_hosts_unresolved[OF assms(2) ex, of name desc hosts patch_types]
    have ph: "fst ?ph = Inl (Exited ?out) \<or> (\<exists>e. fst ?ph = Inl (Raised e))"
      and calls: "filter ec_mutating (snd ?ph) = []"
      by blast+
    have run: "?run = (case fst ?ph of
                         Inl (Exited r) \<Rightarrow> r
                       | Inl (Raised e) \<Rightarrow>
                           \<lparr>changed = Some False, failed = True,
                              msg = Caught ''failed to patch hosts: '' e\<rparr>
                       | Inr resp \<Rightarrow> ?out,
                       EC_GET ''viewconfig'' # snd ?ph)"
      using a ph run_module_ec_checked[of remote configs name hosts False desc policy_name patch_types]
      by (auto simp: bind_io_aborted)
    from ph show "failed (fst ?run)" unfolding run by auto
    from ph show "changed (fst ?run) = Some False" unfolding run by auto
    from calls show "filter ec_mutating (snd ?run) = []" unfolding run by simp
  }
next
  assume b: "fst (get_resource_ids_for_patching_ec remote hosts) = Inr rids
            \<and> fst (get_api_objects_ec remote ''allpatches'') = Inr all_patches
            \<and> selected_patches all_patches patch_types = Inr sel
            \<and> map_e (\<lambda>x. py_getitem x ''patch_id'') sel = Inr pids"
  have ph: "patch_hosts remote name desc policy_name hosts patch_types =
           (case policy_id (JArr policies) policy_name of
              Inl a \<Rightarrow> (Inl a, [EC_GET ''allsystems'', EC_GET ''allpatches'',
                                EC_GET ''deploymentpolicies''])
            | Inr pid \<Rightarrow>
                (raised (fst (api_post remote ''patch/installpatch''
                               (install_data pids rids name desc pid))),
                 [EC_GET ''allsystems'', EC_GET ''allpatches'', EC_GET ''deploymentpolicies'',
                  EC_POST ''patch/installpatch'' (install_data pids rids name desc pid)]))"
    using b patch_hosts_resolved[of remote hosts rids all_patches patch_types sel pids
        "JArr policies" name desc policy_name] assms(2)
    by blast
  show "case find (policy_named policy_name) policies of
               None \<Rightarrow>
                 patch_hosts remote name desc policy_name hosts patch_types
                   = (fail_json (Text ''failed to find deployment policy'') (Some False),
                      [EC_GET ''allsystems'', EC_GET ''allpatches'', EC_GET ''deploymentpolicies''])
             | Some x \<Rightarrow>
                 (case py_getitem x ''template_id'' of
                    Inl e \<Rightarrow>
                      patch_hosts remote name desc policy_name hosts patch_types
                        = (Inl (Raised e),
                           [EC_GET ''allsystems'', EC_GET ''allpatches'',
                            EC_GET ''deploymentpolicies''])
                  | Inr template_id \<Rightarrow>
                      snd (patch_hosts remote name desc policy_name hosts patch_types)
                        = [EC_GET ''allsystems'', EC_GET ''allpatches'',
                           EC_GET ''deploymentpolicies'',
                           EC_POST ''patch/installpatch''
                             (install_data pids rids name desc template_id)])"
    unfolding ph policy_id_entry[OF assms(1)]
    by (simp add: fail_json_def split: option.splits sum.splits)
qed

theorem policy_resolution_witness:
  "policy_id (JArr [deployment_policy ''Other'' 4, deployment_policy ''Update Servers'' 5,
                    deployment_policy ''Update Servers'' 6]) ''Update Servers''
     = Inr (JInt 5)
   \<and> failed (fst (run_module_ec
        (ec_double [(''viewconfig'', JArr []),
                    (''allsystems'', JArr [system ''web01'' 11]),
                    (''allpatches'', JArr [patch 101 ''Cumulative Update'' (JInt 1)]),
                    (''deploymentpolicies'',
                       JArr [deployment_policy ''Other'' 4, deployment_policy ''Update Servers'' 5,
                             deployment_policy ''Update Servers'' 6])]
           (\<lambda>d. ok (JObj [(''status'', JStr ''success'')])))
        ''Ansible patch'' ''Install'' ''Absent policy'' [''web01''] [''Cumulative Update''] Present))
   \<and> filter ec_mutating (snd (run_module_ec
        (ec_double [(''viewconfig'', JArr []),
                    (''allsystems'', JArr [system ''web01'' 11]),
                    (''allpatches'', JArr [patch 101 ''Cumulative Update'' (JInt 1)]),
                    (''deploymentpolicies'',
                       JArr [deployment_policy ''Other'' 4, deployment_policy ''Update Servers'' 5,
                             deployment_policy ''Update Servers'' 6])]
           (\<lambda>d. ok (JObj [(''status'', JStr ''success'')])))
        ''Ansible patch'' ''Install'' ''Absent policy'' [''web01''] [''Cumulative Update''] Present))
     = []"
proof -
  let ?ps = "[deployment_policy ''Other'' 4, deployment_policy ''Update Servers'' 5,
              deployment_policy ''Update Servers'' 6]"
  let ?r = "ec_double [(''viewconfig'', JArr []),
                    (''allsystems'', JArr [system ''web01'' 11]),
                    (''allpatches'', JArr [patch 101 ''Cumulative Update'' (JInt 1)]),
                    (''deploymentpolicies'', JArr ?ps)]
           (\<lambda>d. ok (JObj [(''status'', JStr ''success'')]))"
  have wf: "\<forall>x\<in>set ?ps. returns (py_getitem x ''template_name'')"
    by code_simp
  have 1: "fst (get_api_objects_ec ?r ''deploymentpolicies'') = Inr (JArr ?ps)"
    by code_simp
  have 2: "fst (get_api_objects_ec ?r ''viewconfig'') = Inr (JArr [])"
    by code_simp
  have 3: "check_if_config_exists ''Ansible patch'' (JArr []) [''web01''] = Inr False"
    by code_simp
  have 4: "find (policy_named ''Absent policy'') ?ps = None"
    by code_simp
  have 5: "find (policy_named ''Update Servers'') ?ps = Some (deployment_policy ''Update Servers'' 5)"
    by code_simp
  have 6: "py_getitem (deployment_policy ''Update Servers'' 5) ''template_id'' = Inr (JInt 5)"
    by code_simp
  from policy_resolution[OF wf 1, where policy_name = "''Update Servers''"] 5 6
  have a: "policy_id (JArr ?ps) ''Update Servers'' = Inr (JInt 5)"
    by simp
  from policy_resolution[OF wf 1, where policy_name = "''Absent policy''" and configs = "JArr []"
      and name = "''Ansible patch''" and hosts = "[''web01'']" and desc = "''Install''"
      and patch_types = "[''Cumulative Update'']"] 2 3 4
  have b: "failed (fst (run_module_ec ?r ''Ansible patch'' ''Install'' ''Absent policy'' [''web01'']
                          [''Cumulative Update''] Present))"
    and c: "filter ec_mutating (snd (run_module_ec ?r ''Ansible patch'' ''Install'' ''Absent policy''
                          [''web01''] [''Cumulative Update''] Present)) = []"
    by blast+
  from a b c show ?thesis by blast
qed

subsection \<open>Whitespace-delimited tokens\<close>

text \<open>\<^verbatim>\<open>str.split()\<close> yields the whitespace-delimited tokens: joined, they are the string
  without its whitespace, and each is a non-empty run without whitespace.\<close>

lemma py_split_aux_concat:
  "concat (py_split_aux cur s) = rev cur @ filter (\<lambda>c. \<not> py_isspace c) s"
proof (induction s arbitrary: cur)
  case Nil
  show ?case by simp
next
  case (Cons c cs)
  show ?case
  proof (cases "py_isspace c")
    case True
    then show ?thesis using Cons[of "[]"] by simp
  next
    case False
    then show ?thesis using Cons[of "c # cur"] by simp
  qed
qed

lemma py_split_concat: "concat (py_split s) = filter (\<lambda>c. \<not> py_isspace c) s"
  by (simp add: py_split_def py_split_aux_concat)

lemma py_split_aux_tokens:
  "\<forall>c\<in>set cur. \<not> py_isspace c \<Longrightarrow> t \<in> set (py_split_aux cur s) \<Longrightarrow>
     t \<noteq> [] \<and> (\<forall>c\<in>set t. \<not> py_isspace c)"
proof (induction s arbitrary: cur)
  case Nil
  then show ?case by (cases "cur = []") auto
next
  case (Cons c cs)
  show ?case
  proof (cases "py_isspace c")
    case True
    show ?thesis
    proof (cases "cur = []")
      case True
      with \<open>py_isspace c\<close> Cons.prems(2) have "t \<in> set (py_split_aux [] cs)" by simp
      then show ?thesis using Cons.IH[of "[]"] by simp
    next
      case False
      with \<open>py_isspace c\<close> Cons.prems(2) have "t = rev cur \<or> t \<in> set (py_split_aux [] cs)"
        by simp
      then show ?thesis
      proof
        assume "t = rev cur"
        with False Cons.prems(1) show ?thesis by simp
      next
        assume "t \<in> set (py_split_aux [] cs)"
        then show ?thesis using Cons.IH[of "[]"] by simp
      qed
    qed
  next
    case False
    with Cons.prems(2) have "t \<in> set (py_split_aux (c # cur) cs)" by simp
    moreover have "\<forall>x\<in>set (c # cur). \<not> py_isspace x" using False Cons.prems(1) by simp
    ultimately show ?thesis using Cons.IH[of "c # cur"] by blast
  qed
qed

lemma py_split_tokens:
  "t \<in> set (py_split s) \<Longrightarrow> t \<noteq> [] \<and> (\<forall>c\<in>set t. \<not> py_isspace c)"
  using py_split_aux_tokens[of "[]" t s] by (simp add: py_split_def)

end
